theory Spec2Isabelle
  imports Main "HOL-Library.Log_Nat" "HOL-Library.AList"
begin

section \<open>Go strings\<close>

text \<open>
  A Go string is a byte sequence and is modelled as a \<^typ>\<open>string\<close>. The functions of
  Go's \<^verbatim>\<open>strings\<close> package that \<^verbatim>\<open>main.go\<close> calls are modelled on ASCII text: a byte
  outside ASCII has no case and is not white space (Go's Unicode tables are not part of
  the model).
\<close>

fun translate :: "string \<Rightarrow> string \<Rightarrow> char \<Rightarrow> char" where
  \<comment> \<open>the byte of the second alphabet at the place of \<open>c\<close> in the first, or \<open>c\<close> itself\<close>
  "translate (a # as) (b # bs) c = (if c = a then b else translate as bs c)"
| "translate as bs c = c"

definition upperc :: "char \<Rightarrow> char" where
  "upperc c = translate ''abcdefghijklmnopqrstuvwxyz'' ''ABCDEFGHIJKLMNOPQRSTUVWXYZ'' c"

definition lowerc :: "char \<Rightarrow> char" where
  "lowerc c = translate ''ABCDEFGHIJKLMNOPQRSTUVWXYZ'' ''abcdefghijklmnopqrstuvwxyz'' c"

definition ToUpper :: "string \<Rightarrow> string" where
  "ToUpper s = map upperc s"

definition ToLower :: "string \<Rightarrow> string" where
  "ToLower s = map lowerc s"

definition isSpace :: "char \<Rightarrow> bool" where
  \<comment> \<open>tab, line feed, vertical tab, form feed, carriage return, space\<close>
  "isSpace c = (c \<in> set [CHR 0x09, CHR 0x0A, CHR 0x0B, CHR 0x0C, CHR 0x0D, CHR 0x20])"

definition TrimSpace :: "string \<Rightarrow> string" where
  "TrimSpace s = rev (dropWhile isSpace (rev (dropWhile isSpace s)))"

definition HasPrefix :: "string \<Rightarrow> string \<Rightarrow> bool" where
  "HasPrefix s p = (take (length p) s = p)"

definition HasSuffix :: "string \<Rightarrow> string \<Rightarrow> bool" where
  "HasSuffix s p = (length p \<le> length s \<and> drop (length s - length p) s = p)"

definition TrimPrefix :: "string \<Rightarrow> string \<Rightarrow> string" where
  "TrimPrefix s p = (if HasPrefix s p then drop (length p) s else s)"

definition TrimSuffix :: "string \<Rightarrow> string \<Rightarrow> string" where
  "TrimSuffix s p = (if HasSuffix s p then take (length s - length p) s else s)"

definition Trim :: "string \<Rightarrow> string \<Rightarrow> string" where
  \<comment> \<open>\<^verbatim>\<open>strings.Trim(s, cutset)\<close>: all leading and trailing bytes of the cutset removed\<close>
  "Trim s cutset =
     rev (dropWhile (\<lambda>c. c \<in> set cutset) (rev (dropWhile (\<lambda>c. c \<in> set cutset) s)))"

fun ReplaceAll :: "string \<Rightarrow> string \<Rightarrow> string \<Rightarrow> string" where
  \<comment> \<open>non-overlapping occurrences of \<open>old\<close>, from the left; \<open>main.go\<close> only passes a
      non-empty \<open>old\<close>\<close>
  "ReplaceAll s [] new = concat (map (\<lambda>c. new @ [c]) s) @ new"
| "ReplaceAll [] (d # ds) new = []"
| "ReplaceAll (c # cs) (d # ds) new =
     (if c = d \<and> take (length ds) cs = ds
      then new @ ReplaceAll (drop (length ds) cs) (d # ds) new
      else c # ReplaceAll cs (d # ds) new)"

fun splitOn :: "char \<Rightarrow> string \<Rightarrow> string \<Rightarrow> string list" where
  "splitOn sep acc [] = [rev acc]"
| "splitOn sep acc (c # cs) =
     (if c = sep then rev acc # splitOn sep [] cs else splitOn sep (c # acc) cs)"

definition Split :: "string \<Rightarrow> char \<Rightarrow> string list" where
  \<comment> \<open>\<^verbatim>\<open>strings.Split(s, sep)\<close> for a one-byte separator: never the empty list\<close>
  "Split s sep = splitOn sep [] s"

section \<open>Go's float64\<close>

text \<open>
  IEEE 754 binary64 with round-to-nearest-even, each operation rounded on its own:
  a finite value is a sign and a rational magnitude, so that the two zeros are kept apart.
\<close>

datatype float64 = Fin bool rat | Infty bool | NaN

definition pow2 :: "int \<Rightarrow> rat" where
  "pow2 e = (if 0 \<le> e then of_int (2 ^ nat e) else Fract 1 (2 ^ nat (- e)))"

definition pow10 :: "int \<Rightarrow> rat" where
  "pow10 e = (if 0 \<le> e then of_int (10 ^ nat e) else Fract 1 (10 ^ nat (- e)))"

definition ilog2 :: "rat \<Rightarrow> int" where
  \<comment> \<open>\<open>\<lfloor>log\<^sub>2 a\<rfloor>\<close> for \<open>0 < a\<close>\<close>
  "ilog2 a = (case quotient_of a of (p, q) \<Rightarrow>
     (let k = bitlen p - bitlen q in if pow2 k \<le> a then k else k - 1))"

definition round_even :: "rat \<Rightarrow> int" where
  "round_even x = (let f = \<lfloor>x\<rfloor>; d = x - of_int f in
     if d < 1 / 2 then f else if 1 / 2 < d then f + 1 else if even f then f else f + 1)"

definition round64 :: "bool \<Rightarrow> rat \<Rightarrow> float64" where
  \<comment> \<open>the binary64 value nearest to the magnitude \<open>a\<close>, with sign \<open>s\<close>: a mantissa \<open>n\<close> of
      at most 53 bits at an exponent \<open>e\<close> from \<open>-1074\<close> on; the value \<open>n * 2 ^ e\<close> overflows
      to infinity from \<open>2 ^ 1024\<close> on, that is when \<open>971 < e\<close>, or \<open>e = 971\<close> and \<open>n\<close> is
      rounded up to \<open>2 ^ 53\<close>\<close>
  "round64 s a = (if a = 0 then Fin s 0 else
     (let e = max (ilog2 a - 52) (- 1074);
          n = round_even (a * pow2 (- e))
      in if 971 < e \<or> (e = 971 \<and> 2 ^ 53 \<le> n) then Infty s else Fin s (of_int n * pow2 e)))"

definition fconst :: "rat \<Rightarrow> float64" where
  \<comment> \<open>a non-negative Go constant converted to float64\<close>
  "fconst a = round64 False a"

fun fmul :: "float64 \<Rightarrow> float64 \<Rightarrow> float64" where
  "fmul NaN y = NaN"
| "fmul x NaN = NaN"
| "fmul (Infty s) (Infty t) = Infty (s \<noteq> t)"
| "fmul (Infty s) (Fin t b) = (if b = 0 then NaN else Infty (s \<noteq> t))"
| "fmul (Fin s a) (Infty t) = (if a = 0 then NaN else Infty (s \<noteq> t))"
| "fmul (Fin s a) (Fin t b) = round64 (s \<noteq> t) (a * b)"

fun fdiv :: "float64 \<Rightarrow> float64 \<Rightarrow> float64" where
  "fdiv NaN y = NaN"
| "fdiv x NaN = NaN"
| "fdiv (Infty s) (Infty t) = NaN"
| "fdiv (Infty s) (Fin t b) = Infty (s \<noteq> t)"
| "fdiv (Fin s a) (Infty t) = Fin (s \<noteq> t) 0"
| "fdiv (Fin s a) (Fin t b) =
     (if b = 0 then (if a = 0 then NaN else Infty (s \<noteq> t)) else round64 (s \<noteq> t) (a / b))"

definition signed :: "bool \<Rightarrow> rat \<Rightarrow> rat" where
  "signed s a = (if s then - a else a)"

fun fadd :: "float64 \<Rightarrow> float64 \<Rightarrow> float64" where
  "fadd NaN y = NaN"
| "fadd x NaN = NaN"
| "fadd (Infty s) (Infty t) = (if s = t then Infty s else NaN)"
| "fadd (Infty s) (Fin t b) = Infty s"
| "fadd (Fin s a) (Infty t) = Infty t"
| "fadd (Fin s a) (Fin t b) =
     (let x = signed s a + signed t b
      in if x = 0 then Fin (s \<and> t) 0 else round64 (x < 0) \<bar>x\<bar>)"

fun feq :: "float64 \<Rightarrow> float64 \<Rightarrow> bool" where
  \<comment> \<open>Go's \<^verbatim>\<open>==\<close> on float64: NaN equals nothing, the two zeros are equal\<close>
  "feq (Fin s a) (Fin t b) = (signed s a = signed t b)"
| "feq (Infty s) (Infty t) = (s = t)"
| "feq x y = False"

fun fless :: "float64 \<Rightarrow> float64 \<Rightarrow> bool" where
  \<comment> \<open>Go's \<^verbatim>\<open><\<close> on float64\<close>
  "fless NaN y = False"
| "fless x NaN = False"
| "fless (Fin s a) (Fin t b) = (signed s a < signed t b)"
| "fless (Fin s a) (Infty t) = (\<not> t)"
| "fless (Infty s) (Fin t b) = s"
| "fless (Infty s) (Infty t) = (s \<and> \<not> t)"

section \<open>strconv.ParseFloat\<close>

datatype error = ErrSyntax | ErrRange | Errorf string

definition isDigit :: "char \<Rightarrow> bool" where
  "isDigit c = (c \<in> set ''0123456789'')"

definition isHexLetter :: "char \<Rightarrow> bool" where
  "isHexLetter c = (lowerc c \<in> set ''abcdef'')"

fun indexOf :: "char \<Rightarrow> string \<Rightarrow> nat" where
  "indexOf c [] = 0"
| "indexOf c (a # as) = (if c = a then 0 else Suc (indexOf c as))"

definition digitVal :: "char \<Rightarrow> nat" where
  \<comment> \<open>the value of a decimal or hexadecimal digit\<close>
  "digitVal c = indexOf (lowerc c) ''0123456789abcdef''"

definition special :: "string \<Rightarrow> float64 option" where
  \<comment> \<open>the whole string is an optionally signed \<open>inf\<close> or \<open>infinity\<close>, or \<open>nan\<close>, in
      any case\<close>
  "special s =
     (case (case s of [] \<Rightarrow> (False, False, s)
            | c # cs \<Rightarrow> if c = CHR ''+'' then (False, True, cs)
                        else if c = CHR ''-'' then (True, True, cs) else (False, False, s))
      of (neg, sg, r) \<Rightarrow>
        if ToLower r = ''inf'' \<or> ToLower r = ''infinity'' then Some (Infty neg)
        else if \<not> sg \<and> ToLower r = ''nan'' then Some NaN else None)"

fun underscoreScan :: "bool \<Rightarrow> char \<Rightarrow> string \<Rightarrow> bool" where
  \<comment> \<open>\<open>saw\<close> is the kind of the last byte: \<open>0\<close> a digit or base prefix, \<open>_\<close> an
      underscore, \<open>!\<close> anything else, \<open>^\<close> the start\<close>
  "underscoreScan hex saw [] = (saw \<noteq> CHR ''_'')"
| "underscoreScan hex saw (c # cs) =
     (if isDigit c \<or> hex \<and> isHexLetter c then underscoreScan hex (CHR ''0'') cs
      else if c = CHR ''_'' then (saw = CHR ''0'' \<and> underscoreScan hex (CHR ''_'') cs)
      else (saw \<noteq> CHR ''_'' \<and> underscoreScan hex (CHR ''!'') cs))"

definition underscoreOK :: "string \<Rightarrow> bool" where
  "underscoreOK s0 =
     (let s = (if s0 \<noteq> [] \<and> (hd s0 = CHR ''-'' \<or> hd s0 = CHR ''+'') then tl s0 else s0)
      in if 2 \<le> length s \<and> hd s = CHR ''0'' \<and> lowerc (s ! 1) \<in> set ''box''
         then underscoreScan (lowerc (s ! 1) = CHR ''x'') (CHR ''0'') (drop 2 s)
         else underscoreScan False (CHR ''^'') s)"

record mantissa =
  sawdot :: bool
  sawdigits :: bool
  mant :: int
  fracDigits :: int
  underscores :: bool

fun readMantissa :: "bool \<Rightarrow> string \<Rightarrow> mantissa \<Rightarrow> mantissa \<times> string" where
  \<comment> \<open>the digits, with at most one point, read as one integer \<open>mant\<close>; \<open>fracDigits\<close> of them
      stand after the point\<close>
  "readMantissa hex [] st = (st, [])"
| "readMantissa hex (c # cs) st =
     (if c = CHR ''_'' then readMantissa hex cs (st\<lparr>underscores := True\<rparr>)
      else if c = CHR ''.'' then
        (if sawdot st then (st, c # cs) else readMantissa hex cs (st\<lparr>sawdot := True\<rparr>))
      else if isDigit c \<or> hex \<and> isHexLetter c then
        readMantissa hex cs
          (st\<lparr>sawdigits := True,
              mant := mant st * (if hex then 16 else 10) + int (digitVal c),
              fracDigits := (if sawdot st then fracDigits st + 1 else fracDigits st)\<rparr>)
      else (st, c # cs))"

fun readExponent :: "string \<Rightarrow> int \<Rightarrow> bool \<Rightarrow> int \<times> bool \<times> string" where
  \<comment> \<open>the exponent's digits; the library stops accumulating at 10000\<close>
  "readExponent [] e us = (e, us, [])"
| "readExponent (c # cs) e us =
     (if c = CHR ''_'' then readExponent cs e True
      else if isDigit c
        then readExponent cs (if e < 10000 then e * 10 + int (digitVal c) else e) us
      else (e, us, c # cs))"

definition readFloat :: "string \<Rightarrow> (bool \<times> rat) option" where
  \<comment> \<open>sign and exact magnitude of a decimal or hexadecimal floating-point literal that is
      the whole string; \<open>None\<close> is a syntax error\<close>
  "readFloat s0 =
     (let neg = (s0 \<noteq> [] \<and> hd s0 = CHR ''-'');
          s = (if s0 \<noteq> [] \<and> (hd s0 = CHR ''+'' \<or> hd s0 = CHR ''-'') then tl s0 else s0);
          hex = (2 < length s \<and> hd s = CHR ''0'' \<and> lowerc (s ! 1) = CHR ''x'');
          (st, r) = readMantissa hex (if hex then drop 2 s else s)
                      \<lparr>sawdot = False, sawdigits = False, mant = 0, fracDigits = 0,
                       underscores = False\<rparr>
      in if \<not> sawdigits st then None
         else if r \<noteq> [] \<and> lowerc (hd r) = (if hex then CHR ''p'' else CHR ''e'') then
           (let r1 = tl r;
                eneg = (r1 \<noteq> [] \<and> hd r1 = CHR ''-'');
                r2 = (if r1 \<noteq> [] \<and> (hd r1 = CHR ''+'' \<or> hd r1 = CHR ''-'') then tl r1 else r1)
            in if r2 = [] \<or> \<not> isDigit (hd r2) then None
               else (case readExponent r2 0 False of (e, us, r3) \<Rightarrow>
                 if r3 \<noteq> [] then None
                 else if (underscores st \<or> us) \<and> \<not> underscoreOK s0 then None
                 else (let ex = (if eneg then - e else e)
                       in Some (neg, if hex then of_int (mant st) * pow2 (ex - 4 * fracDigits st)
                                     else of_int (mant st) * pow10 (ex - fracDigits st)))))
         else if hex \<or> r \<noteq> [] then None
         else if underscores st \<and> \<not> underscoreOK s0 then None
         else Some (neg, of_int (mant st) * pow10 (- fracDigits st)))"

definition ParseFloat :: "string \<Rightarrow> float64 \<times> error option" where
  \<comment> \<open>\<^verbatim>\<open>strconv.ParseFloat(s, 64)\<close>: the nearest float64; 0 with a syntax error;
      an infinity with a range error\<close>
  "ParseFloat s =
     (case special s of Some f \<Rightarrow> (f, None)
      | None \<Rightarrow>
         (case readFloat s of None \<Rightarrow> (Fin False 0, Some ErrSyntax)
          | Some (neg, a) \<Rightarrow>
             (case round64 neg a of Infty t \<Rightarrow> (Infty t, Some ErrRange) | f \<Rightarrow> (f, None))))"

section \<open>Decoded JSON values and the nutrient extractor\<close>

text \<open>The dynamic values that \<^verbatim>\<open>encoding/json\<close> stores in an \<^verbatim>\<open>interface{}\<close>.\<close>

datatype jvalue =
  JNumber float64 | JString string | JBool bool | JNull
  | JArray "jvalue list" | JObject "(string \<times> jvalue) list"

type_synonym nutriments = "string \<rightharpoonup> jvalue"

fun toFloat64 :: "jvalue \<Rightarrow> float64 \<times> error option" where
  "toFloat64 (JNumber v) = (v, None)"
| "toFloat64 (JString v) = ParseFloat (TrimSpace v)"
| "toFloat64 v = (Fin False 0, Some (Errorf ''unsupported type''))"

definition convertUnit :: "string \<Rightarrow> float64 \<Rightarrow> float64" where
  \<comment> \<open>the \<^verbatim>\<open>switch unitConversion\<close> of \<^verbatim>\<open>mapNutrient\<close>\<close>
  "convertUnit unitConversion fval =
     (if unitConversion = ''g_to_mg'' then fmul fval (Fin False 1000)
      else if unitConversion = ''g_to_ug'' then fmul fval (Fin False 1000000)
      else fval)"

fun mapNutrientWrites :: "nutriments \<Rightarrow> string \<Rightarrow> string list \<Rightarrow> float64 list" where
  \<comment> \<open>the values that the loop of \<^verbatim>\<open>mapNutrient\<close> stores through \<^verbatim>\<open>field\<close>, in order\<close>
  "mapNutrientWrites nutriments unitConversion [] = []"
| "mapNutrientWrites nutriments unitConversion (key # keys) =
     (case nutriments key of
        Some v \<Rightarrow>
          (case toFloat64 v of
             (fval, None) \<Rightarrow> [convertUnit unitConversion fval]
           | (fval, Some err) \<Rightarrow> mapNutrientWrites nutriments unitConversion keys)
      | None \<Rightarrow> mapNutrientWrites nutriments unitConversion keys)"

definition mapNutrient :: "float64 \<Rightarrow> nutriments \<Rightarrow> string \<Rightarrow> string list \<Rightarrow> float64" where
  \<comment> \<open>the content of \<^verbatim>\<open>*field\<close> after the call, from its content before\<close>
  "mapNutrient field nutriments unitConversion keys =
     foldl (\<lambda>old new. new) field (mapNutrientWrites nutriments unitConversion keys)"

section \<open>Allergens\<close>

definition AllergenMap :: "string \<rightharpoonup> string" where
  "AllergenMap = map_of [
    (''MILK'', ''milk''),
    (''EGGS'', ''eggs''),
    (''EGG'', ''eggs''),
    (''FISH'', ''fish''),
    (''SHELLFISH'', ''shellfish''),
    (''CRUSTACEAN SHELLFISH'', ''crustacean_shellfish''),
    (''CRUSTACEAN_SHELLFISH'', ''crustacean_shellfish''),
    (''TREE NUTS'', ''tree_nuts''),
    (''TREE_NUTS'', ''tree_nuts''),
    (''PEANUTS'', ''peanuts''),
    (''PEANUT'', ''peanuts''),
    (''WHEAT'', ''wheat''),
    (''SOY'', ''soy''),
    (''SOYBEAN'', ''soy''),
    (''SOYBEANS'', ''soy''),
    (''SESAME'', ''sesame''),
    (''ALMONDS'', ''almonds''),
    (''ALMOND'', ''almonds''),
    (''NUTS'', ''nuts''),
    (''BRAZIL NUT'', ''brazil_nuts''),
    (''BRAZIL_NUT'', ''brazil_nuts''),
    (''BRAZIL NUTS'', ''brazil_nuts''),
    (''BRAZIL_NUTS'', ''brazil_nuts''),
    (''CASHEWS'', ''cashews''),
    (''HAZELNUTS'', ''hazelnuts''),
    (''MACADAMIA NUTS'', ''macadamia_nuts''),
    (''MACADAMIA_NUTS'', ''macadamia_nuts''),
    (''PECANS'', ''pecans''),
    (''PINE NUTS'', ''pine_nuts''),
    (''PINE_NUTS'', ''pine_nuts''),
    (''PISTACHIOS'', ''pistachios''),
    (''WALNUTS'', ''walnuts''),
    (''ANCHOVY'', ''anchovy''),
    (''COD'', ''cod''),
    (''MAHI MAHI'', ''mahi_mahi''),
    (''MAHI_MAHI'', ''mahi_mahi''),
    (''SALMON'', ''salmon''),
    (''TUNA'', ''tuna''),
    (''CRAB'', ''crab''),
    (''CRABS'', ''crab''),
    (''LOBSTER'', ''lobster''),
    (''LOBSTERS'', ''lobster''),
    (''SHRIMP'', ''shrimp''),
    (''SHRIMPS'', ''shrimp''),
    (''CLAMS'', ''clams''),
    (''CLAM'', ''clams''),
    (''MUSSELS'', ''mussels''),
    (''MUSSEL'', ''mussels''),
    (''OYSTERS'', ''oysters''),
    (''OYSTER'', ''oysters''),
    (''SCALLOPS'', ''scallops''),
    (''SCALLOP'', ''scallops''),
    (''BARLEY'', ''barley''),
    (''RYE'', ''rye''),
    (''OATS'', ''oats''),
    (''TRITICALE'', ''triticale''),
    (''GLUTEN'', ''gluten''),
    (''CELERY'', ''celery''),
    (''MUSTARD'', ''mustard''),
    (''SULFITES'', ''sulfites''),
    (''LUPIN'', ''lupin''),
    (''MOLLUSKS'', ''mollusks''),
    (''CORN'', ''corn''),
    (''GELATIN'', ''gelatin''),
    (''SEEDS'', ''seeds''),
    (''SUNFLOWER SEEDS'', ''sunflower_seeds''),
    (''SUNFLOWER_SEEDS'', ''sunflower_seeds''),
    (''POPPY SEEDS'', ''poppy_seeds''),
    (''POPPY_SEEDS'', ''poppy_seeds''),
    (''COTTONSEED'', ''cottonseed''),
    (''COCONUT'', ''coconut''),
    (''PALM'', ''palm''),
    (''BUCKWHEAT'', ''buckwheat''),
    (''BEEF'', ''beef''),
    (''PORK'', ''pork''),
    (''CHICKEN'', ''chicken''),
    (''GARLIC'', ''garlic''),
    (''ONION'', ''onion''),
    (''TOMATO'', ''tomato''),
    (''LATEX'', ''latex''),
    (''CARMINE'', ''carmine''),
    (''COCHINEAL'', ''cochineal''),
    (''ANNATTO'', ''annatto''),
    (''MSG'', ''msg''),
    (''SULFUR DIOXIDE'', ''sulfur_dioxide''),
    (''SULFUR_DIOXIDE'', ''sulfur_dioxide''),
    (''BENZOATES'', ''benzoates''),
    (''FOOD COLORS'', ''food_colors''),
    (''FOOD_COLORS'', ''food_colors''),
    (''YELLOW 5'', ''yellow_5''),
    (''YELLOW_5'', ''yellow_5''),
    (''RED 40'', ''red_40''),
    (''RED_40'', ''red_40'')]"

definition normalizeAllergen :: "string \<Rightarrow> string" where
  "normalizeAllergen allergen =
     (let upperAllergen = ToUpper (TrimSpace allergen);
          upperAllergen = TrimPrefix upperAllergen ''EN:''
      in case AllergenMap upperAllergen of
           Some normalized \<Rightarrow> normalized
         | None \<Rightarrow> ToLower allergen)"

definition extractIngredientAllergen :: "string \<Rightarrow> string" where
  "extractIngredientAllergen ingredientTag =
     (let upperIngredientTag = ToUpper (TrimSpace ingredientTag);
          upperIngredientTag = TrimPrefix upperIngredientTag ''EN:''
      in case AllergenMap upperIngredientTag of
           Some normalized \<Rightarrow> normalized
         | None \<Rightarrow> '''')"

section \<open>Regular expressions\<close>

datatype regex =
  Eps
  | Chr "char \<Rightarrow> bool"
  | Seq regex regex
  | Alt regex regex
  | Rep bool "char \<Rightarrow> bool"
  | Cap nat regex
  | Bol
  | Eol

text \<open>
  \<open>Chr p\<close> is one byte of a class, \<open>Alt a b\<close> prefers \<open>a\<close>, \<open>Rep True p\<close> is the greedy and
  \<open>Rep False p\<close> the lazy repetition of a class (the patterns of \<^verbatim>\<open>main.go\<close> repeat nothing
  but classes), \<open>Cap n r\<close> is the capture group \<open>n\<close>, \<open>Bol\<close> and \<open>Eol\<close> are \<^verbatim>\<open>^\<close> and \<^verbatim>\<open>$\<close>.

  The matcher is a backtracking search over a stack of what is still to be matched; the
  first match it finds is the one Go's \<^verbatim>\<open>regexp\<close> reports (leftmost-first).

  The classes of the patterns are ASCII classes or their complements, so matching byte by
  byte agrees with Go's matching of code points. Under \<^verbatim>\<open>(?i)\<close> a letter of a pattern
  matches its two ASCII cases; Go folds the Kelvin sign onto \<open>k\<close> and the long s onto \<open>s\<close> as
  well, which, like all text outside ASCII, is left out of the model.
\<close>

datatype item = M regex | Close nat nat

type_synonym caps = "nat \<Rightarrow> (nat \<times> nat) option"

fun weight :: "regex \<Rightarrow> nat" where
  "weight (Seq a b) = Suc (weight a + weight b)"
| "weight (Alt a b) = Suc (weight a + weight b)"
| "weight (Cap n a) = Suc (Suc (weight a))"
| "weight r = 1"

fun iweight :: "item \<Rightarrow> nat" where
  "iweight (M r) = weight r"
| "iweight (Close n b) = 1"

function (sequential) run :: "item list \<Rightarrow> nat \<Rightarrow> string \<Rightarrow> caps \<Rightarrow> (nat \<times> caps) option" where
  \<comment> \<open>\<open>pos\<close> is the offset in the text, \<open>s\<close> the text from there on; the result is the end
      of the match and the bounds of the groups\<close>
  "run [] pos s c = Some (pos, c)"
| "run (Close n b # k) pos s c = run k pos s (c(n \<mapsto> (b, pos)))"
| "run (M Eps # k) pos s c = run k pos s c"
| "run (M (Chr p) # k) pos [] c = None"
| "run (M (Chr p) # k) pos (x # xs) c = (if p x then run k (Suc pos) xs c else None)"
| "run (M (Seq a b) # k) pos s c = run (M a # M b # k) pos s c"
| "run (M (Alt a b) # k) pos s c =
     (case run (M a # k) pos s c of Some r \<Rightarrow> Some r | None \<Rightarrow> run (M b # k) pos s c)"
| "run (M (Rep g p) # k) pos [] c = run k pos [] c"
| "run (M (Rep g p) # k) pos (x # xs) c =
     (if p x then
        (if g then (case run (M (Rep g p) # k) (Suc pos) xs c of
                      Some r \<Rightarrow> Some r | None \<Rightarrow> run k pos (x # xs) c)
         else (case run k pos (x # xs) c of
                 Some r \<Rightarrow> Some r | None \<Rightarrow> run (M (Rep g p) # k) (Suc pos) xs c))
      else run k pos (x # xs) c)"
| "run (M (Cap n a) # k) pos s c = run (M a # Close n pos # k) pos s c"
| "run (M Bol # k) pos s c = (if pos = 0 then run k pos s c else None)"
| "run (M Eol # k) pos s c = (if s = [] then run k pos s c else None)"
  by pat_completeness auto
termination
  by (relation "measures [\<lambda>(k, pos, s, c). sum_list (map iweight k),
                          \<lambda>(k, pos, s, c). length s]") auto

record submatch =
  mstart :: nat
  mend :: nat
  groups :: "nat \<Rightarrow> string"

definition matchHere :: "regex \<Rightarrow> nat \<Rightarrow> string \<Rightarrow> submatch option" where
  \<comment> \<open>the match of highest priority that starts at offset \<open>pos\<close>, where \<open>s\<close> is the text from
      there on; group 0 is the whole match, a group that took no part is empty\<close>
  "matchHere r pos s =
     (case run [M (Cap 0 r)] pos s Map.empty of
        None \<Rightarrow> None
      | Some (pos', c) \<Rightarrow>
          Some \<lparr>mstart = pos, mend = pos',
                groups = (\<lambda>n. case c n of None \<Rightarrow> []
                                | Some (b, e) \<Rightarrow> take (e - b) (drop (b - pos) s))\<rparr>)"

fun findFrom :: "regex \<Rightarrow> nat \<Rightarrow> string \<Rightarrow> submatch option" where
  "findFrom r pos [] = matchHere r pos []"
| "findFrom r pos (x # xs) =
     (case matchHere r pos (x # xs) of Some m \<Rightarrow> Some m | None \<Rightarrow> findFrom r (Suc pos) xs)"

definition FindStringSubmatch :: "regex \<Rightarrow> string \<Rightarrow> submatch option" where
  \<comment> \<open>the leftmost match, and at its start the match a backtracking search finds first\<close>
  "FindStringSubmatch r s = findFrom r 0 s"

fun findAllFrom :: "regex \<Rightarrow> nat \<Rightarrow> nat \<Rightarrow> string \<Rightarrow> submatch list" where
  \<comment> \<open>successive non-overlapping matches; \<open>skip\<close> counts the bytes of the last match still
      to be passed. No pattern of \<^verbatim>\<open>main.go\<close> used with it matches the empty string, and
      empty matches are not reported.\<close>
  "findAllFrom r pos skip [] = []"
| "findAllFrom r pos skip (x # xs) =
     (if 0 < skip then findAllFrom r (Suc pos) (skip - 1) xs
      else (case matchHere r pos (x # xs) of
              Some m \<Rightarrow>
                (if mend m = pos then findAllFrom r (Suc pos) 0 xs
                 else m # findAllFrom r (Suc pos) (mend m - pos - 1) xs)
            | None \<Rightarrow> findAllFrom r (Suc pos) 0 xs))"

definition FindAllStringSubmatch :: "regex \<Rightarrow> string \<Rightarrow> submatch list" where
  "FindAllStringSubmatch r s = findAllFrom r 0 0 s"

fun replaceAllFrom :: "regex \<Rightarrow> string \<Rightarrow> nat \<Rightarrow> nat \<Rightarrow> string \<Rightarrow> string" where
  \<comment> \<open>the text with every match replaced, \<open>skip\<close> as in \<open>findAllFrom\<close>; an empty match
      replaces nothing\<close>
  "replaceAllFrom r repl pos skip [] = []"
| "replaceAllFrom r repl pos skip (x # xs) =
     (if 0 < skip then replaceAllFrom r repl (Suc pos) (skip - 1) xs
      else (case matchHere r pos (x # xs) of
              Some m \<Rightarrow>
                (if mend m = pos then x # replaceAllFrom r repl (Suc pos) 0 xs
                 else repl @ replaceAllFrom r repl (Suc pos) (mend m - pos - 1) xs)
            | None \<Rightarrow> x # replaceAllFrom r repl (Suc pos) 0 xs))"

definition ReplaceAllString :: "regex \<Rightarrow> string \<Rightarrow> string \<Rightarrow> string" where
  \<comment> \<open>every match replaced by \<open>repl\<close>, which holds no \<^verbatim>\<open>$\<close> in \<^verbatim>\<open>main.go\<close>\<close>
  "ReplaceAllString r src repl = replaceAllFrom r repl 0 0 src"

subsection \<open>The pieces of the patterns\<close>

definition reSpace :: "char \<Rightarrow> bool" where
  \<comment> \<open>\<^verbatim>\<open>\s\<close>: tab, line feed, form feed, carriage return, space\<close>
  "reSpace c = (c \<in> set [CHR 0x09, CHR 0x0A, CHR 0x0C, CHR 0x0D, CHR 0x20])"

definition seqs :: "regex list \<Rightarrow> regex" where
  "seqs rs = foldr Seq rs Eps"

definition alts :: "regex list \<Rightarrow> regex" where
  \<comment> \<open>\<^verbatim>\<open>a|b|c\<close>: the leftmost alternative first; never called with the empty list\<close>
  "alts rs = foldr Alt (butlast rs) (last rs)"

definition opt :: "regex \<Rightarrow> regex" where
  \<comment> \<open>\<^verbatim>\<open>r?\<close>\<close>
  "opt r = Alt r Eps"

definition lit :: "string \<Rightarrow> regex" where
  "lit s = seqs (map (\<lambda>a. Chr (\<lambda>c. c = a)) s)"

definition liti :: "string \<Rightarrow> regex" where
  \<comment> \<open>a literal under \<^verbatim>\<open>(?i)\<close>\<close>
  "liti s = seqs (map (\<lambda>a. Chr (\<lambda>c. c = lowerc a \<or> c = upperc a)) s)"

definition number :: regex where
  \<comment> \<open>\<^verbatim>\<open>\d*\.?\d+\<close>\<close>
  "number = seqs [Rep True isDigit, opt (lit ''.''), Chr isDigit, Rep True isDigit]"

definition digits1 :: regex where
  \<comment> \<open>\<^verbatim>\<open>\d+\<close>\<close>
  "digits1 = Seq (Chr isDigit) (Rep True isDigit)"

definition ws0 :: regex where
  \<comment> \<open>\<^verbatim>\<open>\s*\<close>\<close>
  "ws0 = Rep True reSpace"

definition ws1 :: regex where
  \<comment> \<open>\<^verbatim>\<open>\s+\<close>\<close>
  "ws1 = Seq (Chr reSpace) (Rep True reSpace)"

definition noneOf :: "string \<Rightarrow> char \<Rightarrow> bool" where
  "noneOf cs c = (c \<notin> set cs)"


section \<open>The serving-size parser\<close>

definition digitChar :: "int \<Rightarrow> char" where
  "digitChar d = (if d = 0 then CHR ''0'' else if d = 1 then CHR ''1'' else if d = 2 then CHR ''2''
     else if d = 3 then CHR ''3'' else if d = 4 then CHR ''4'' else if d = 5 then CHR ''5''
     else if d = 6 then CHR ''6'' else if d = 7 then CHR ''7'' else if d = 8 then CHR ''8''
     else CHR ''9'')"

fun showDigits :: "nat \<Rightarrow> int \<Rightarrow> string" where
  \<comment> \<open>the decimal digits of \<open>n\<close>, which are at most one more than the first argument\<close>
  "showDigits 0 n = [digitChar (n mod 10)]"
| "showDigits (Suc k) n =
     (if n < 10 then [digitChar (n mod 10)]
      else showDigits k (n div 10) @ [digitChar (n mod 10)])"

definition showInt :: "int \<Rightarrow> string" where
  \<comment> \<open>a non-negative number in decimal; it has no more decimal digits than binary ones\<close>
  "showInt n = showDigits (nat (bitlen n)) n"

fun Sprintf_4f :: "float64 \<Rightarrow> string" where
  \<comment> \<open>\<^verbatim>\<open>fmt.Sprintf("%.4f", v)\<close>: the value rounded to four decimals, ties to even\<close>
  "Sprintf_4f NaN = ''NaN''"
| "Sprintf_4f (Infty s) = (if s then ''-Inf'' else ''+Inf'')"
| "Sprintf_4f (Fin s a) =
     (let n = round_even (a * 10000)
      in (if s then ''-'' else []) @ showInt (n div 10000) @ ''.''
           @ map digitChar [n div 1000 mod 10, n div 100 mod 10, n div 10 mod 10, n mod 10])"

definition parseFloatOr :: "float64 \<Rightarrow> string \<Rightarrow> float64" where
  \<comment> \<open>\<^verbatim>\<open>v, err := strconv.ParseFloat(strings.TrimSpace(str), 64); if err != nil { v = d }\<close>\<close>
  "parseFloatOr d str = (case ParseFloat (TrimSpace str) of (v, None) \<Rightarrow> v | (v, Some err) \<Rightarrow> d)"

definition convertToGrams :: "float64 \<Rightarrow> string \<Rightarrow> float64" where
  "convertToGrams quantity unit =
     (let u = ToLower unit in
      if u \<in> set [''g'', ''gram'', ''grams'', ''gr'', ''grm'', ''g.'', ''gr.'', ''grm.''] then quantity
      else if u \<in> set [''kg'', ''kilogram'', ''kilograms''] then fmul quantity (Fin False 1000)
      else if u \<in> set [''mg'', ''milligram'', ''milligrams''] then fdiv quantity (Fin False 1000)
      else if u \<in> set [''oz'', ''ounces'', ''oz.'', ''ounce'', ''onz'', ''ozn'', ''oza'']
        then fmul quantity (fconst (283495 / 10000))
      else if u \<in> set [''lb'', ''pound'', ''pounds''] then fmul quantity (fconst (453592 / 1000))
      else if u = ''ml'' then quantity
      else if u \<in> set [''l'', ''liter'', ''litre'', ''liters'', ''litres'']
        then fmul quantity (Fin False 1000)
      else Fin False 0)"

definition estimateWeightFromUnit :: "float64 \<Rightarrow> string \<Rightarrow> float64" where
  "estimateWeightFromUnit quantity unit =
     (let lowerUnit = ToLower unit in
      if lowerUnit \<in> set [''cup'', ''cups''] then fmul quantity (Fin False 240)
      else if lowerUnit \<in> set [''tbsp'', ''tablespoon'', ''tablespoons'']
        then fmul quantity (Fin False 15)
      else if lowerUnit \<in> set [''tsp'', ''teaspoon'', ''teaspoons''] then fmul quantity (Fin False 5)
      else if lowerUnit \<in> set [''slice'', ''slices''] then fmul quantity (Fin False 28)
      else if lowerUnit \<in> set [''cookie'', ''cookies''] then fmul quantity (Fin False 15)
      else Fin False 0)"

definition isMetricUnit :: "string \<Rightarrow> bool" where
  "isMetricUnit unit = (unit \<in> set [''g'', ''gram'', ''grams'', ''gr'', ''grm'', ''g.'', ''gr.'',
     ''grm.'', ''kg'', ''kilogram'', ''kilograms'', ''ml'', ''l'', ''liter'', ''litre'', ''liters'',
     ''litres''])"

definition isImperialUnit :: "string \<Rightarrow> bool" where
  "isImperialUnit unit = (unit \<in> set [''oz'', ''ounce'', ''ounces'', ''onz'', ''ozn'', ''oza'', ''lb'',
     ''pound'', ''pounds'', ''fl oz''])"

definition servingTypeOf :: "string \<Rightarrow> int" where
  \<comment> \<open>the block \<^verbatim>\<open>// Determine servingType\<close>, on the measurement unit: 1 metric, 2 imperial,
      3 other\<close>
  "servingTypeOf measurementUnit =
     (let lowerUnit = ToLower measurementUnit in
      if isMetricUnit lowerUnit then 1 else if isImperialUnit lowerUnit then 2 else 3)"

definition reExtractWeight :: regex where
  \<comment> \<open>\<^verbatim>\<open>(?i)(\d*\.?\d+)\s*(g|gr|grm|gram|kg|mg|ml|l|oz|ounces|fl oz)\<close>\<close>
  "reExtractWeight = seqs [Cap 1 number, ws0,
     Cap 2 (alts (map liti [''g'', ''gr'', ''grm'', ''gram'', ''kg'', ''mg'', ''ml'', ''l'', ''oz'',
                            ''ounces'', ''fl oz'']))]"

definition extractWeightFromMeasurementUnit :: "string \<Rightarrow> float64" where
  "extractWeightFromMeasurementUnit measurementUnit =
     (case FindStringSubmatch reExtractWeight measurementUnit of
        Some matches \<Rightarrow>
          (case ParseFloat (TrimSpace (groups matches 1)) of
             (weightQty, None) \<Rightarrow> convertToGrams weightQty (groups matches 2)
           | (weightQty, Some err) \<Rightarrow> Fin False 0)
      | None \<Rightarrow> Fin False 0)"

definition reFraction :: regex where
  \<comment> \<open>\<^verbatim>\<open>(\d+)\s*/\s*(\d+)\<close>\<close>
  "reFraction = seqs [Cap 1 digits1, ws0, lit ''/'', ws0, Cap 2 digits1]"

definition convertFractions :: "string \<Rightarrow> string" where
  "convertFractions input =
     foldl (\<lambda>input match.
              (let numerator = fst (ParseFloat (groups match 1));
                   denominator = fst (ParseFloat (groups match 2))
               in if \<not> feq denominator (Fin False 0)
                  then ReplaceAll input (groups match 0) (Sprintf_4f (fdiv numerator denominator))
                  else input))
       input (FindAllStringSubmatch reFraction input)"

definition reParens :: regex where
  \<comment> \<open>\<^verbatim>\<open>\([^()]*\)\<close>\<close>
  "reParens = seqs [lit ''('', Rep True (noneOf ''()''), lit '')'']"

definition removeNestedParentheses :: "string \<Rightarrow> string" where
  "removeNestedParentheses input =
     (let matches = FindAllStringSubmatch reParens input
      in if 1 < length matches then take (mend (matches ! 0)) input else input)"

definition descriptors :: "string list" where
  "descriptors = [''chips'', ''slice'', ''slices'', ''cookie'', ''cookies'', ''pouch'', ''pouches'',
     ''can'', ''cans'', ''bottle'', ''bottles'', ''box'', ''boxes'', ''bag'', ''bags'', ''piece'',
     ''pieces'']"

definition handleDescriptors :: "string \<Rightarrow> string" where
  \<comment> \<open>for each descriptor the pattern \<^verbatim>\<open>(?i)^desc\s+\<close>\<close>
  "handleDescriptors input =
     foldl (\<lambda>input desc. ReplaceAllString (seqs [Bol, liti desc, ws1]) input []) input descriptors"

definition cleanServingSize :: "string \<Rightarrow> string" where
  \<comment> \<open>the first part of \<^verbatim>\<open>parseServingSize\<close>, up to the call of
      \<^verbatim>\<open>removeNestedParentheses\<close>\<close>
  "cleanServingSize servingSizeStr0 =
     (let servingSizeStr = TrimSpace servingSizeStr0;
          servingSizeStr = TrimSpace servingSizeStr;
          servingSizeStr = TrimSuffix servingSizeStr ''|'';
          servingSizeStr = ReplaceAll servingSizeStr ''OZA'' ''OZ'';
          servingSizeStr = ReplaceAll servingSizeStr ''OZN'' ''OZ'';
          servingSizeStr = ReplaceAll servingSizeStr ''ONZ'' ''OZ'';
          servingSizeStr = ReplaceAll servingSizeStr ''Amount per serving'' ''Serving'';
          servingSizeStr = ReplaceAll servingSizeStr ''FL.OZ'' ''FL OZ'';
          servingSizeStr = ReplaceAll servingSizeStr '','' ''.'';
          servingSizeStr = ReplaceAllString ws1 servingSizeStr '' '';
          servingSizeStr = Trim servingSizeStr ''|'';
          servingSizeStr = handleDescriptors servingSizeStr;
          servingSizeStr = ReplaceAll servingSizeStr '','' ''.'';
          servingSizeStr = convertFractions servingSizeStr
      in removeNestedParentheses servingSizeStr)"

subsection \<open>The patterns of \<^verbatim>\<open>parseServingSize\<close>, in the order they are tried\<close>

definition re1 :: regex where
  \<comment> \<open>\<^verbatim>\<open>^(\d*\.?\d+)\s*(g|gr|grm|gram|kg|mg|ml|l)$\<close>\<close>
  "re1 = seqs [Bol, Cap 1 number, ws0,
     Cap 2 (alts (map lit [''g'', ''gr'', ''grm'', ''gram'', ''kg'', ''mg'', ''ml'', ''l''])), Eol]"

definition re2 :: regex where
  \<comment> \<open>\<^verbatim>\<open>(?i)^(?:(\d*\.?\d+)\s+)?([^\(]+?)\s*(?:\(\s*(\d*\.?\d+)\s*(g|gr|grm|gram|kg|mg|ml|l|oz|fl oz|ounces|cup|cups)\s*\))?$\<close>\<close>
  "re2 = seqs [Bol, opt (seqs [Cap 1 number, ws1]),
     Cap 2 (Seq (Chr (noneOf ''('')) (Rep False (noneOf ''(''))), ws0,
     opt (seqs [lit ''('', ws0, Cap 3 number, ws0,
       Cap 4 (alts (map liti [''g'', ''gr'', ''grm'', ''gram'', ''kg'', ''mg'', ''ml'', ''l'', ''oz'',
                              ''fl oz'', ''ounces'', ''cup'', ''cups''])),
       ws0, lit '')'']), Eol]"

definition re3 :: regex where
  \<comment> \<open>\<^verbatim>\<open>(?i)^(?:(\d*\.?\d+)\s+([^\(]+?))\s*(?:\(\s*(\d*\.?\d+)\s*(g|gr|grm|gram|kg|mg|ml|l|oz|fl oz|ounces)\s*\))?$\<close>\<close>
  "re3 = seqs [Bol, Cap 1 number, ws1,
     Cap 2 (Seq (Chr (noneOf ''('')) (Rep False (noneOf ''(''))), ws0,
     opt (seqs [lit ''('', ws0, Cap 3 number, ws0,
       Cap 4 (alts (map liti [''g'', ''gr'', ''grm'', ''gram'', ''kg'', ''mg'', ''ml'', ''l'', ''oz'',
                              ''fl oz'', ''ounces''])),
       ws0, lit '')'']), Eol]"

definition re4 :: regex where
  \<comment> \<open>\<^verbatim>\<open>(?i)^(?:(\d*\.?\d+)\s+([^\(]+?))\s*\(\s*(\d*\.?\d+)\s*(g|gr|grm|gram|kg|ml|l|oz|fl oz|ounces)\s*\)$\<close>\<close>
  "re4 = seqs [Bol, Cap 1 number, ws1,
     Cap 2 (Seq (Chr (noneOf ''('')) (Rep False (noneOf ''(''))), ws0,
     lit ''('', ws0, Cap 3 number, ws0,
     Cap 4 (alts (map liti [''g'', ''gr'', ''grm'', ''gram'', ''kg'', ''ml'', ''l'', ''oz'', ''fl oz'',
                            ''ounces''])),
     ws0, lit '')'', Eol]"

definition re5 :: regex where
  \<comment> \<open>\<^verbatim>\<open>(?i)^(?:(\d*\.?\d+)\s+([^\(]+?))\s+(\d*\.?\d+)\s*(oz|ounces)\s*/\s*(\d*\.?\d+)\s*(g|gr|grm|gram)$\<close>\<close>
  "re5 = seqs [Bol, Cap 1 number, ws1,
     Cap 2 (Seq (Chr (noneOf ''('')) (Rep False (noneOf ''(''))), ws1,
     Cap 3 number, ws0, Cap 4 (alts (map liti [''oz'', ''ounces''])), ws0, lit ''/'', ws0,
     Cap 5 number, ws0, Cap 6 (alts (map liti [''g'', ''gr'', ''grm'', ''gram''])), Eol]"

definition re6 :: regex where
  \<comment> \<open>\<^verbatim>\<open>(?i)^(?:(\d*\.?\d+)\s*(g|gr|grm|gram|ml|l|oz|fl oz))\s*\(\s*(\d*\.?\d+)?\s*([^\)]+)\s*\)$\<close>\<close>
  "re6 = seqs [Bol, Cap 1 number, ws0,
     Cap 2 (alts (map liti [''g'', ''gr'', ''grm'', ''gram'', ''ml'', ''l'', ''oz'', ''fl oz''])), ws0,
     lit ''('', ws0, opt (Cap 3 number), ws0,
     Cap 4 (Seq (Chr (noneOf '')'')) (Rep True (noneOf '')''))), ws0, lit '')'', Eol]"

definition re7 :: regex where
  \<comment> \<open>\<^verbatim>\<open>(?i)^(?:(\d*\.?\d+)\s+([^\(]+))\s*\(\s*(\d*\.?\d+)\s*(?:g|gr|grm|gram)\s*\)$\<close>\<close>
  "re7 = seqs [Bol, Cap 1 number, ws1,
     Cap 2 (Seq (Chr (noneOf ''('')) (Rep True (noneOf ''(''))), ws0,
     lit ''('', ws0, Cap 3 number, ws0, alts (map liti [''g'', ''gr'', ''grm'', ''gram'']),
     ws0, lit '')'', Eol]"

definition re8 :: regex where
  \<comment> \<open>\<^verbatim>\<open>(?i)^(?:(\d*\.?\d+)\s*(g|gr|grm|gram|ml|oz|fl oz))\s*\(\s*(\d*\.?\d+)\s*(?:g|gr|grm|gram)\s*\)$\<close>\<close>
  "re8 = seqs [Bol, Cap 1 number, ws0,
     Cap 2 (alts (map liti [''g'', ''gr'', ''grm'', ''gram'', ''ml'', ''oz'', ''fl oz''])), ws0,
     lit ''('', ws0, Cap 3 number, ws0, alts (map liti [''g'', ''gr'', ''grm'', ''gram'']),
     ws0, lit '')'', Eol]"

definition reUnit :: regex where
  \<comment> \<open>\<^verbatim>\<open>(?i)^([^\s]+)\s+(\d*\.?\d+)\s*(g|gr|grm|gram|ml|oz|fl oz)$\<close>\<close>
  "reUnit = seqs [Bol, Cap 1 (Seq (Chr (\<lambda>c. \<not> reSpace c)) (Rep True (\<lambda>c. \<not> reSpace c))), ws1,
     Cap 2 number, ws0,
     Cap 3 (alts (map liti [''g'', ''gr'', ''grm'', ''gram'', ''ml'', ''oz'', ''fl oz''])), Eol]"

definition reSimple :: regex where
  \<comment> \<open>\<^verbatim>\<open>(?i)^(\d*\.?\d+)\s*(g|gr|grm|gram|ml|oz|fl oz)$\<close>\<close>
  "reSimple = seqs [Bol, Cap 1 number, ws0,
     Cap 2 (alts (map liti [''g'', ''gr'', ''grm'', ''gram'', ''ml'', ''oz'', ''fl oz''])), Eol]"

subsection \<open>The blocks of \<^verbatim>\<open>parseServingSize\<close>\<close>

text \<open>
  Each block is the body of one \<^verbatim>\<open>if matches != nil\<close>, from the submatches to the values
  it returns: quantity, measurement unit, weight in grams, serving type.
\<close>

type_synonym parsed = "float64 \<times> string \<times> float64 \<times> int"

definition block1 :: "string \<Rightarrow> submatch \<Rightarrow> parsed option" where
  \<comment> \<open>lines 628-649; \<open>None\<close>: the block does not return and the next pattern is tried\<close>
  "block1 servingSizeStr matches =
     (let qtyStr = groups matches 1; unitStr = groups matches 2
      in case ParseFloat qtyStr of
           (weightQty, Some err) \<Rightarrow> Some (Fin False 1, servingSizeStr, Fin False 0, 3)
         | (weightQty, None) \<Rightarrow>
             (let weightInGrams = convertToGrams weightQty unitStr
              in if feq weightInGrams weightQty \<or> (unitStr = ''ml'' \<and> feq weightInGrams weightQty)
                 then Some (Fin False 1, ''Serving'', weightInGrams, 3)
                 else None))"

definition block2 :: "submatch \<Rightarrow> parsed" where
  \<comment> \<open>lines 654-705\<close>
  "block2 matches =
     (let qtyStr = groups matches 1; unitStr = groups matches 2;
          weightQtyStr = groups matches 3; weightUnit = ToLower (groups matches 4);
          quantity = (if qtyStr = [] then Fin False 1 else parseFloatOr (Fin False 1) qtyStr);
          measurementUnit = TrimSpace unitStr;
          measurementUnit = TrimSuffix measurementUnit '' e'';
          weightInGrams = Fin False 0;
          weightInGrams =
            (if weightQtyStr \<noteq> [] \<and> weightUnit \<noteq> [] then
               (case ParseFloat (TrimSpace weightQtyStr) of
                  (weightQty, None) \<Rightarrow> convertToGrams weightQty weightUnit
                | (weightQty, Some err) \<Rightarrow> weightInGrams)
             else weightInGrams);
          weightInGrams = (if feq weightInGrams (Fin False 0)
                           then extractWeightFromMeasurementUnit measurementUnit
                           else weightInGrams);
          weightInGrams = (if feq weightInGrams (Fin False 0)
                           then estimateWeightFromUnit quantity measurementUnit
                           else weightInGrams)
      in (quantity, measurementUnit, weightInGrams, servingTypeOf measurementUnit))"

definition block3 :: "submatch \<Rightarrow> parsed" where
  \<comment> \<open>lines 710-751\<close>
  "block3 matches =
     (let qtyStr = groups matches 1; unitStr = groups matches 2;
          weightQtyStr = groups matches 3; weightUnit = ToLower (groups matches 4);
          quantity = parseFloatOr (Fin False 1) qtyStr;
          measurementUnit = TrimSpace unitStr;
          weightInGrams = Fin False 0;
          weightInGrams =
            (if weightQtyStr \<noteq> [] \<and> weightUnit \<noteq> [] then
               (case ParseFloat (TrimSpace weightQtyStr) of
                  (weightQty, None) \<Rightarrow> convertToGrams weightQty weightUnit
                | (weightQty, Some err) \<Rightarrow> weightInGrams)
             else weightInGrams);
          weightInGrams = (if feq weightInGrams (Fin False 0)
                           then estimateWeightFromUnit quantity measurementUnit
                           else weightInGrams)
      in (quantity, measurementUnit, weightInGrams, servingTypeOf measurementUnit))"

definition block4 :: "submatch \<Rightarrow> parsed" where
  \<comment> \<open>lines 756-791\<close>
  "block4 matches =
     (let qtyStr = groups matches 1; unitStr = groups matches 2;
          weightQtyStr = groups matches 3; weightUnit = ToLower (groups matches 4);
          quantity = parseFloatOr (Fin False 1) qtyStr;
          measurementUnit = TrimSpace unitStr;
          weightQty = parseFloatOr (Fin False 0) weightQtyStr;
          weightInGrams = convertToGrams weightQty weightUnit
      in (quantity, measurementUnit, weightInGrams, servingTypeOf measurementUnit))"

definition block5 :: "submatch \<Rightarrow> parsed" where
  \<comment> \<open>lines 796-822\<close>
  "block5 matches =
     (let qtyStr = groups matches 1; unitStr = groups matches 2; gQtyStr = groups matches 5;
          quantity = parseFloatOr (Fin False 1) qtyStr;
          measurementUnit = TrimSpace unitStr;
          weightQty = parseFloatOr (Fin False 0) gQtyStr;
          weightInGrams = weightQty
      in (quantity, measurementUnit, weightInGrams, 3))"

definition block6 :: "submatch \<Rightarrow> parsed" where
  \<comment> \<open>lines 827-868\<close>
  "block6 matches =
     (let weightQtyStr = groups matches 1; weightUnit = ToLower (groups matches 2);
          weightQty = parseFloatOr (Fin False 0) weightQtyStr;
          weightInGrams = convertToGrams weightQty weightUnit;
          qtyStr = groups matches 3; unitStr = groups matches 4;
          quantity = (if qtyStr = [] then Fin False 1 else parseFloatOr (Fin False 1) qtyStr);
          measurementUnit = TrimSpace unitStr
      in (quantity, measurementUnit, weightInGrams, servingTypeOf measurementUnit))"

definition block7 :: "submatch \<Rightarrow> parsed" where
  \<comment> \<open>lines 873-905, and with the submatches of the next pattern lines 910-942\<close>
  "block7 matches =
     (let qtyStr = groups matches 1; unitStr = groups matches 2; weightStr = groups matches 3;
          quantity = parseFloatOr (Fin False 1) qtyStr;
          measurementUnit = TrimSpace unitStr;
          weightInGrams = parseFloatOr (Fin False 0) weightStr
      in (quantity, measurementUnit, weightInGrams, servingTypeOf measurementUnit))"

definition blockUnit :: "submatch \<Rightarrow> parsed" where
  \<comment> \<open>lines 947-970\<close>
  "blockUnit matches =
     (let unitStr = groups matches 1; qtyStr = groups matches 2; weightUnit = groups matches 3;
          quantity = parseFloatOr (Fin False 1) qtyStr;
          measurementUnit = TrimSpace unitStr;
          weightInGrams = convertToGrams quantity weightUnit
      in (quantity, measurementUnit, weightInGrams, servingTypeOf measurementUnit))"

definition blockSimple :: "submatch \<Rightarrow> parsed" where
  \<comment> \<open>lines 975-998\<close>
  "blockSimple matches =
     (let qtyStr = groups matches 1; unitStr = groups matches 2;
          quantity = parseFloatOr (Fin False 1) qtyStr;
          measurementUnit = TrimSpace unitStr;
          weightInGrams = quantity
      in (quantity, measurementUnit, weightInGrams, servingTypeOf measurementUnit))"

definition parseServingSize :: "string \<Rightarrow> parsed" where
  "parseServingSize servingSizeStr0 =
     (let servingSizeStr = cleanServingSize servingSizeStr0 in
      case (case FindStringSubmatch re1 servingSizeStr of
              Some matches \<Rightarrow> block1 servingSizeStr matches | None \<Rightarrow> None) of
        Some r \<Rightarrow> r
      | None \<Rightarrow>
     (case FindStringSubmatch re2 servingSizeStr of Some matches \<Rightarrow> block2 matches | None \<Rightarrow>
     (case FindStringSubmatch re3 servingSizeStr of Some matches \<Rightarrow> block3 matches | None \<Rightarrow>
     (case FindStringSubmatch re4 servingSizeStr of Some matches \<Rightarrow> block4 matches | None \<Rightarrow>
     (case FindStringSubmatch re5 servingSizeStr of Some matches \<Rightarrow> block5 matches | None \<Rightarrow>
     (case FindStringSubmatch re6 servingSizeStr of Some matches \<Rightarrow> block6 matches | None \<Rightarrow>
     (case FindStringSubmatch re7 servingSizeStr of Some matches \<Rightarrow> block7 matches | None \<Rightarrow>
     (case FindStringSubmatch re8 servingSizeStr of Some matches \<Rightarrow> block7 matches | None \<Rightarrow>
     (case FindStringSubmatch reUnit servingSizeStr of Some matches \<Rightarrow> blockUnit matches | None \<Rightarrow>
     (case FindStringSubmatch reSimple servingSizeStr of Some matches \<Rightarrow> blockSimple matches | None \<Rightarrow>
        (Fin False 1, servingSizeStr, Fin False 0, 3)))))))))))"

section \<open>The record normalizer\<close>

record ServingSize =
  MeasurementUnit :: string
  Type :: int
  Quantity :: float64
  WeightInGrams :: float64
  Calories :: float64
  Protein :: float64
  Fat :: float64
  Carbs :: float64
  Fiber :: float64
  Sugar :: float64
  Sodium :: float64
  Cholesterol :: float64
  Calcium :: float64
  Iron :: float64
  Potassium :: float64
  Magnesium :: float64
  Zinc :: float64
  VitaminAIU :: float64
  VitaminC :: float64
  VitaminD :: float64
  VitaminDIU :: float64
  VitaminE :: float64
  VitaminK :: float64
  Thiamin :: float64
  Riboflavin :: float64
  Niacin :: float64
  VitaminB6 :: float64
  Folate :: float64
  VitaminB12 :: float64
  Phosphorus :: float64
  Copper :: float64
  Manganese :: float64
  Selenium :: float64
  Water :: float64
  Ash :: float64
  SaturatedFat :: float64
  MonounsaturatedFat :: float64
  PolyunsaturatedFat :: float64
  TransFat :: float64

text \<open>
  A \<^verbatim>\<open>[]string\<close> is a reference to a part of an array: \<^verbatim>\<open>ProcessProduct\<close> stores into the
  elements of one, so the arrays live in an explicit heap. \<open>Slice a off n\<close> is the \<open>n\<close>
  elements from offset \<open>off\<close> of the array at address \<open>a\<close>. A slice of a Go program always
  lies inside its array; outside, \<open>load\<close> gives the empty string and \<open>store\<close> does nothing.
\<close>

datatype slice = NilSlice | Slice nat nat nat

type_synonym heap = "string list list"

fun slen :: "slice \<Rightarrow> nat" where
  "slen NilSlice = 0"
| "slen (Slice a off n) = n"

fun elems :: "heap \<Rightarrow> slice \<Rightarrow> string list" where
  \<comment> \<open>the contents of a slice\<close>
  "elems h NilSlice = []"
| "elems h (Slice a off n) = (if a < length h then take n (drop off (h ! a)) else [])"

fun load :: "heap \<Rightarrow> slice \<Rightarrow> nat \<Rightarrow> string" where
  "load h NilSlice i = []"
| "load h (Slice a off n) i =
     (if a < length h \<and> off + i < length (h ! a) then h ! a ! (off + i) else [])"

fun store :: "heap \<Rightarrow> slice \<Rightarrow> nat \<Rightarrow> string \<Rightarrow> heap" where
  "store h NilSlice i v = h"
| "store h (Slice a off n) i v = (if a < length h then h[a := (h ! a)[off + i := v]] else h)"

definition alloc :: "heap \<Rightarrow> string list \<Rightarrow> slice \<times> heap" where
  \<comment> \<open>a new array, at a new address\<close>
  "alloc h xs = (Slice (length h) 0 (length xs), h @ [xs])"

record OpenFoodFactsProduct =
  ID :: string
  Code :: string
  ProductName :: string
  ProductNameEn :: string
  ProductNameFr :: string
  ProductNameEs :: string
  ProductNameDe :: string
  ProductNameIt :: string
  ProductNameNl :: string
  ProductNamePl :: string
  ProductNamePt :: string
  ProductNameUk :: string
  ProductNameBg :: string
  ProductNameRo :: string
  ProductNameEl :: string
  ProductNameRu :: string
  ProductNameTr :: string
  ProductNameAr :: string
  ProductNameHi :: string
  Lang :: string
  Brands :: string
  ServingSizeText :: string
  Nutriments :: nutriments
  AllergensText :: string
  AllergensTags :: slice
  IngredientsTags :: "string list"

text \<open>
  The fields \<^verbatim>\<open>ServingSize\<close> and \<^verbatim>\<open>Allergens\<close> of the Go struct are \<open>ServingSizeText\<close> and
  \<open>AllergensText\<close> here, their names being taken by the record of serving sizes and by the
  field of the food item. \<^verbatim>\<open>IngredientsTags\<close> and the map \<^verbatim>\<open>Nutriments\<close> are only read, and
  are given by their contents.
\<close>

definition emptyProduct :: OpenFoodFactsProduct where
  \<comment> \<open>the zero value of the struct\<close>
  "emptyProduct = \<lparr>ID = [], Code = [], ProductName = [], ProductNameEn = [],
     ProductNameFr = [], ProductNameEs = [], ProductNameDe = [], ProductNameIt = [],
     ProductNameNl = [], ProductNamePl = [], ProductNamePt = [], ProductNameUk = [],
     ProductNameBg = [], ProductNameRo = [], ProductNameEl = [], ProductNameRu = [],
     ProductNameTr = [], ProductNameAr = [], ProductNameHi = [], Lang = [], Brands = [],
     ServingSizeText = [], Nutriments = Map.empty, AllergensText = [],
     AllergensTags = NilSlice, IngredientsTags = []\<rparr>"

record FoodItem =
  Name :: string
  OffID :: string
  Brand :: string
  Barcode :: string
  ServingSizes :: "ServingSize list"
  Allergens :: slice
  IngredientAllergens :: "string list"
  Translations :: "(string \<times> string) list"

definition extractBrand :: "string \<Rightarrow> string" where
  "extractBrand brands =
     (case Split (TrimSpace brands) (CHR '','') of
        [] \<Rightarrow> brands
      | b # bs \<Rightarrow> TrimSpace b)"

definition toTitle :: "string \<Rightarrow> string option" where
  \<comment> \<open>\<^verbatim>\<open>s[:1]\<close> panics on the empty string: \<open>None\<close>\<close>
  "toTitle s = (if s = [] then None else Some (ToUpper (take 1 s) @ ToLower (drop 1 s)))"

definition isAsciiOnly :: "string \<Rightarrow> bool" where
  \<comment> \<open>no byte from 128 on\<close>
  "isAsciiOnly s = list_all (\<lambda>c. \<not> digit7 c) s"

definition lookupOrEmpty :: "(string \<times> string) list \<Rightarrow> string \<Rightarrow> string" where
  \<comment> \<open>\<^verbatim>\<open>translations[key]\<close>: the empty string for a missing key\<close>
  "lookupOrEmpty translations key =
     (case map_of translations key of Some v \<Rightarrow> v | None \<Rightarrow> [])"

definition collectTranslations :: "OpenFoodFactsProduct \<Rightarrow> (string \<times> string) list" where
  \<comment> \<open>lines 304-352: the map \<^verbatim>\<open>translations\<close>, as the list of its entries\<close>
  "collectTranslations product =
     foldl (\<lambda>translations (lang, name).
              if name \<noteq> [] then AList.update lang name translations else translations) []
       [(''en'', ProductNameEn product), (''fr'', ProductNameFr product),
        (''es'', ProductNameEs product), (''de'', ProductNameDe product),
        (''it'', ProductNameIt product), (''nl'', ProductNameNl product),
        (''pl'', ProductNamePl product), (''pt'', ProductNamePt product),
        (''uk'', ProductNameUk product), (''bg'', ProductNameBg product),
        (''ro'', ProductNameRo product), (''el'', ProductNameEl product),
        (''ru'', ProductNameRu product), (''tr'', ProductNameTr product),
        (''ar'', ProductNameAr product), (''hi'', ProductNameHi product)]"

definition chooseName ::
  "OpenFoodFactsProduct \<Rightarrow> nat \<Rightarrow> string \<times> (string \<times> string) list" where
  \<comment> \<open>lines 304-374: the display name and the translations. Go ranges over a map in an
      order of its own choosing: \<open>pick\<close> stands for the choice of the entry that the loop
      of line 370 meets first.\<close>
  "chooseName product pick =
     (let translations = collectTranslations product;
          name = lookupOrEmpty translations ''en'';
          name = (if name = [] then ProductName product else name);
          translations =
            (if ProductName product \<noteq> [] \<and> length translations = 0 \<and> Lang product \<noteq> []
             then AList.update (ToLower (Lang product)) name translations else translations);
          name =
            (if name = [] \<and> 0 < length translations \<and> Lang product \<noteq> []
             then lookupOrEmpty translations (ToLower (Lang product)) else name);
          name =
            (if name = [] \<and> 0 < length translations
             then snd (translations ! (pick mod length translations)) else name)
      in (name, translations))"

definition normalizeAllergens :: "OpenFoodFactsProduct \<Rightarrow> heap \<Rightarrow> slice \<times> heap" where
  \<comment> \<open>lines 384-390: the slice \<^verbatim>\<open>allergens\<close>, and the heap after the loop has stored the
      normalized strings through it\<close>
  "normalizeAllergens product h =
     (let allergens = AllergensTags product;
          (allergens, h) =
            (if slen allergens = 0 \<and> AllergensText product \<noteq> []
             then alloc h (Split (AllergensText product) (CHR '',''))
             else (allergens, h))
      in (allergens,
          foldl (\<lambda>h i. store h allergens i (normalizeAllergen (load h allergens i))) h
            [0..<slen allergens]))"

definition zeroServing :: ServingSize where
  \<comment> \<open>the zero value of the struct\<close>
  "zeroServing = \<lparr>MeasurementUnit = [], Type = 0, Quantity = Fin False 0,
     WeightInGrams = Fin False 0, Calories = Fin False 0, Protein = Fin False 0,
     Fat = Fin False 0, Carbs = Fin False 0, Fiber = Fin False 0, Sugar = Fin False 0,
     Sodium = Fin False 0, Cholesterol = Fin False 0, Calcium = Fin False 0, Iron = Fin False 0,
     Potassium = Fin False 0, Magnesium = Fin False 0, Zinc = Fin False 0,
     VitaminAIU = Fin False 0, VitaminC = Fin False 0, VitaminD = Fin False 0,
     VitaminDIU = Fin False 0, VitaminE = Fin False 0, VitaminK = Fin False 0,
     Thiamin = Fin False 0, Riboflavin = Fin False 0, Niacin = Fin False 0,
     VitaminB6 = Fin False 0, Folate = Fin False 0, VitaminB12 = Fin False 0,
     Phosphorus = Fin False 0, Copper = Fin False 0, Manganese = Fin False 0,
     Selenium = Fin False 0, Water = Fin False 0, Ash = Fin False 0, SaturatedFat = Fin False 0,
     MonounsaturatedFat = Fin False 0, PolyunsaturatedFat = Fin False 0,
     TransFat = Fin False 0\<rparr>"

definition fill100g :: "nutriments \<Rightarrow> ServingSize \<Rightarrow> ServingSize" where
  \<comment> \<open>lines 413-447\<close>
  "fill100g nutriments s = s
     \<lparr>Calories := mapNutrient (Calories s) nutriments [] [''energy-kcal_100g''],
      Protein := mapNutrient (Protein s) nutriments [] [''proteins_100g''],
      Fat := mapNutrient (Fat s) nutriments [] [''fat_100g''],
      Carbs := mapNutrient (Carbs s) nutriments [] [''carbohydrates_100g''],
      Fiber := mapNutrient (Fiber s) nutriments [] [''fiber_100g''],
      Sugar := mapNutrient (Sugar s) nutriments [] [''sugars_100g''],
      Sodium := mapNutrient (Sodium s) nutriments ''g_to_mg'' [''sodium_100g''],
      Cholesterol := mapNutrient (Cholesterol s) nutriments ''g_to_mg'' [''cholesterol_100g''],
      Calcium := mapNutrient (Calcium s) nutriments ''g_to_mg'' [''calcium_100g''],
      Iron := mapNutrient (Iron s) nutriments ''g_to_mg'' [''iron_100g''],
      Potassium := mapNutrient (Potassium s) nutriments ''g_to_mg'' [''potassium_100g''],
      Magnesium := mapNutrient (Magnesium s) nutriments ''g_to_mg'' [''magnesium_100g''],
      Zinc := mapNutrient (Zinc s) nutriments ''g_to_mg'' [''zinc_100g''],
      VitaminAIU := mapNutrient (VitaminAIU s) nutriments [] [''vitamin-a_iu_100g''],
      VitaminC := mapNutrient (VitaminC s) nutriments ''g_to_mg'' [''vitamin-c_100g''],
      VitaminD := mapNutrient (VitaminD s) nutriments ''g_to_ug'' [''vitamin-d_100g''],
      VitaminDIU := mapNutrient (VitaminDIU s) nutriments [] [''vitamin-d_iu_100g''],
      VitaminE := mapNutrient (VitaminE s) nutriments ''g_to_mg'' [''vitamin-e_100g''],
      VitaminK := mapNutrient (VitaminK s) nutriments ''g_to_ug'' [''vitamin-k_100g''],
      Thiamin := mapNutrient (Thiamin s) nutriments ''g_to_mg'' [''thiamin_100g''],
      Riboflavin := mapNutrient (Riboflavin s) nutriments ''g_to_mg'' [''riboflavin_100g''],
      Niacin := mapNutrient (Niacin s) nutriments ''g_to_mg'' [''niacin_100g''],
      VitaminB6 := mapNutrient (VitaminB6 s) nutriments ''g_to_mg'' [''vitamin-b6_100g''],
      Folate := mapNutrient (Folate s) nutriments ''g_to_ug'' [''folate_100g''],
      VitaminB12 := mapNutrient (VitaminB12 s) nutriments ''g_to_ug'' [''vitamin-b12_100g''],
      Phosphorus := mapNutrient (Phosphorus s) nutriments ''g_to_mg'' [''phosphorus_100g''],
      Copper := mapNutrient (Copper s) nutriments ''g_to_mg'' [''copper_100g''],
      Manganese := mapNutrient (Manganese s) nutriments ''g_to_mg'' [''manganese_100g''],
      Selenium := mapNutrient (Selenium s) nutriments ''g_to_ug'' [''selenium_100g''],
      Water := mapNutrient (Water s) nutriments [] [''water_100g''],
      Ash := mapNutrient (Ash s) nutriments [] [''ash_100g''],
      SaturatedFat := mapNutrient (SaturatedFat s) nutriments [] [''saturated-fat_100g''],
      MonounsaturatedFat :=
        mapNutrient (MonounsaturatedFat s) nutriments [] [''monounsaturated-fat_100g''],
      PolyunsaturatedFat :=
        mapNutrient (PolyunsaturatedFat s) nutriments [] [''polyunsaturated-fat_100g''],
      TransFat := mapNutrient (TransFat s) nutriments [] [''trans-fat_100g'']\<rparr>"

definition fillServing :: "nutriments \<Rightarrow> ServingSize \<Rightarrow> ServingSize" where
  \<comment> \<open>lines 476-510\<close>
  "fillServing nutriments s = s
     \<lparr>Calories := mapNutrient (Calories s) nutriments [] [''energy-kcal_serving''],
      Protein := mapNutrient (Protein s) nutriments [] [''proteins_serving''],
      Fat := mapNutrient (Fat s) nutriments [] [''fat_serving''],
      Carbs := mapNutrient (Carbs s) nutriments [] [''carbohydrates_serving''],
      Fiber := mapNutrient (Fiber s) nutriments [] [''fiber_serving''],
      Sugar := mapNutrient (Sugar s) nutriments [] [''sugars_serving''],
      Sodium := mapNutrient (Sodium s) nutriments ''g_to_mg'' [''sodium_serving''],
      Cholesterol := mapNutrient (Cholesterol s) nutriments ''g_to_mg'' [''cholesterol_serving''],
      Calcium := mapNutrient (Calcium s) nutriments ''g_to_mg'' [''calcium_serving''],
      Iron := mapNutrient (Iron s) nutriments ''g_to_mg'' [''iron_serving''],
      Potassium := mapNutrient (Potassium s) nutriments ''g_to_mg'' [''potassium_serving''],
      Magnesium := mapNutrient (Magnesium s) nutriments ''g_to_mg'' [''magnesium_serving''],
      Zinc := mapNutrient (Zinc s) nutriments ''g_to_mg'' [''zinc_serving''],
      VitaminAIU := mapNutrient (VitaminAIU s) nutriments [] [''vitamin-a_iu_serving''],
      VitaminC := mapNutrient (VitaminC s) nutriments ''g_to_mg'' [''vitamin-c_serving''],
      VitaminD := mapNutrient (VitaminD s) nutriments ''g_to_ug'' [''vitamin-d_serving''],
      VitaminDIU := mapNutrient (VitaminDIU s) nutriments [] [''vitamin-d_iu_serving''],
      VitaminE := mapNutrient (VitaminE s) nutriments ''g_to_mg'' [''vitamin-e_serving''],
      VitaminK := mapNutrient (VitaminK s) nutriments ''g_to_ug'' [''vitamin-k_serving''],
      Thiamin := mapNutrient (Thiamin s) nutriments ''g_to_mg'' [''thiamin_serving''],
      Riboflavin := mapNutrient (Riboflavin s) nutriments ''g_to_mg'' [''riboflavin_serving''],
      Niacin := mapNutrient (Niacin s) nutriments ''g_to_mg'' [''niacin_serving''],
      VitaminB6 := mapNutrient (VitaminB6 s) nutriments ''g_to_mg'' [''vitamin-b6_serving''],
      Folate := mapNutrient (Folate s) nutriments ''g_to_ug'' [''folate_serving''],
      VitaminB12 := mapNutrient (VitaminB12 s) nutriments ''g_to_ug'' [''vitamin-b12_serving''],
      Phosphorus := mapNutrient (Phosphorus s) nutriments ''g_to_mg'' [''phosphorus_serving''],
      Copper := mapNutrient (Copper s) nutriments ''g_to_mg'' [''copper_serving''],
      Manganese := mapNutrient (Manganese s) nutriments ''g_to_mg'' [''manganese_serving''],
      Selenium := mapNutrient (Selenium s) nutriments ''g_to_ug'' [''selenium_serving''],
      Water := mapNutrient (Water s) nutriments [] [''water_serving''],
      Ash := mapNutrient (Ash s) nutriments [] [''ash_serving''],
      SaturatedFat := mapNutrient (SaturatedFat s) nutriments [] [''saturated-fat_serving''],
      MonounsaturatedFat :=
        mapNutrient (MonounsaturatedFat s) nutriments [] [''monounsaturated-fat_serving''],
      PolyunsaturatedFat :=
        mapNutrient (PolyunsaturatedFat s) nutriments [] [''polyunsaturated-fat_serving''],
      TransFat := mapNutrient (TransFat s) nutriments [] [''trans-fat_serving'']\<rparr>"

definition per100g :: "nutriments \<Rightarrow> ServingSize" where
  \<comment> \<open>lines 404-451: the serving \<^verbatim>\<open>per100gServing\<close>\<close>
  "per100g nutriments =
     (let per100gServing = zeroServing\<lparr>MeasurementUnit := ''g'', Type := 1,
            Quantity := Fin False 100, WeightInGrams := Fin False 100\<rparr>;
          per100gServing = fill100g nutriments per100gServing
      in if feq (Calories per100gServing) (Fin False 0)
         then per100gServing\<lparr>Calories :=
                fadd (fadd (fmul (Protein per100gServing) (Fin False 4))
                           (fmul (Fat per100gServing) (Fin False 9)))
                     (fmul (Carbs per100gServing) (Fin False 4))\<rparr>
         else per100gServing)"

definition naturalServing :: "nutriments \<Rightarrow> string \<Rightarrow> error + ServingSize list" where
  \<comment> \<open>lines 454-519: what is appended to \<^verbatim>\<open>servingSizes\<close> before the serving per 100 g;
      \<open>Inl\<close> is a panic\<close>
  "naturalServing nutriments servingSize =
     (if servingSize \<noteq> [] then
        (case parseServingSize servingSize of
           (quantity, measurementUnit, weightInGrams0, servingType) \<Rightarrow>
          (let weightInGrams =
                 (if feq weightInGrams0 (Fin False 0) \<and> fless (Fin False 0) quantity
                  then convertToGrams quantity measurementUnit else weightInGrams0);
               lowerMeasurementUnit = ToLower measurementUnit;
               skip = (lowerMeasurementUnit = [] \<or> lowerMeasurementUnit = ''100g''
                       \<or> lowerMeasurementUnit = ''100 g'' \<or> lowerMeasurementUnit = ''100grams''
                       \<or> lowerMeasurementUnit = ''100 grams'')
           in if \<not> skip \<and> fless (Fin False 0) quantity \<and> \<not> feq weightInGrams (Fin False 100)
              then
                (case (if 1 < length measurementUnit \<and> isAsciiOnly measurementUnit
                       then toTitle measurementUnit else Some measurementUnit) of
                   None \<Rightarrow> Inl (Errorf ''panic: slice bounds out of range'')
                 | Some measurementUnit \<Rightarrow>
                    (let ss = zeroServing\<lparr>MeasurementUnit := measurementUnit,
                                Type := servingType, Quantity := quantity,
                                WeightInGrams := weightInGrams\<rparr>;
                         ss = fillServing nutriments ss
                     in Inr [if feq (Calories ss) (Fin False 0)
                             then ss\<lparr>Calories :=
                                    fadd (fadd (fmul (Protein ss) (Fin False 4))
                                               (fmul (Fat ss) (Fin False 9)))
                                         (fmul (Carbs ss) (Fin False 4))\<rparr>
                             else ss]))
              else Inr []))
      else Inr [])"

definition EmptyKeyFields :: error where
  "EmptyKeyFields = Errorf ''product ID or code is empty''"

definition EmptyNameAndBarcode :: error where
  "EmptyNameAndBarcode = Errorf ''product name and barcode are empty''"

definition ProcessProduct ::
  "OpenFoodFactsProduct \<Rightarrow> heap \<Rightarrow> nat \<Rightarrow> (error + FoodItem) \<times> heap" where
  \<comment> \<open>the result (\<open>Inl\<close>: no item, and the error) and the heap after the call\<close>
  "ProcessProduct product h pick =
     (if ID product = [] \<or> Code product = [] then (Inl EmptyKeyFields, h)
      else
       (case chooseName product pick of (name, translations) \<Rightarrow>
        (let offID = ID product;
             brand = extractBrand (Brands product);
             barcode = Code product
         in if name = [] \<and> barcode = [] then (Inl EmptyNameAndBarcode, h)
            else
             (case normalizeAllergens product h of (allergens, h') \<Rightarrow>
              (let ingredientAllergens =
                     filter (\<lambda>ingredientAllergen. ingredientAllergen \<noteq> [])
                       (map extractIngredientAllergen (IngredientsTags product));
                   nutriments = Nutriments product;
                   per100gServing = per100g nutriments
               in case naturalServing nutriments (ServingSizeText product) of
                    Inl panic \<Rightarrow> (Inl panic, h')
                  | Inr servingSizes \<Rightarrow>
                      (Inr \<lparr>Name = name, OffID = offID, Brand = brand, Barcode = barcode,
                            ServingSizes = servingSizes @ [per100gServing],
                            Allergens = allergens,
                            IngredientAllergens = ingredientAllergens,
                            Translations = translations\<rparr>, h'))))))"

subsection \<open>Sample records\<close>

definition slicesProduct :: OpenFoodFactsProduct where
  "slicesProduct = emptyProduct\<lparr>ID := ''0001'', Code := ''0001'', ProductName := ''Bread'',
     ServingSizeText := ''2 SLICES (57 g)'',
     Nutriments := [''proteins_100g'' \<mapsto> JNumber (Fin False 10),
                    ''fat_serving'' \<mapsto> JString '' 1.5 '']\<rparr>"

definition taggedHeap :: heap where
  \<comment> \<open>one array, of two strings\<close>
  "taggedHeap = [''en:milk'', ''Gluten''] # []"

definition taggedProduct :: OpenFoodFactsProduct where
  \<comment> \<open>its \<^verbatim>\<open>AllergensTags\<close> are the two elements of the array at address 0\<close>
  "taggedProduct = emptyProduct\<lparr>ID := ''0002'', Code := ''0002'', ProductName := ''Muesli'',
     AllergensTags := Slice 0 0 2\<rparr>"

section \<open>Properties of the nutrient extractor and of the allergen normalizer\<close>

lemma mapNutrientWrites_find:
  "mapNutrientWrites nutriments uc keys =
     (case find (\<lambda>k. case nutriments k of Some v \<Rightarrow> snd (toFloat64 v) = None | None \<Rightarrow> False) keys of
        None \<Rightarrow> []
      | Some k \<Rightarrow> [convertUnit uc (fst (toFloat64 (the (nutriments k))))])"
  by (induction keys) (auto split: option.splits prod.splits)

lemma mapNutrientWrites_length: "length (mapNutrientWrites nutriments uc keys) \<le> 1"
  by (induction keys) (auto split: option.splits prod.splits)

text \<open>
  C4 (as amended). \<^verbatim>\<open>mapNutrient\<close> assigns the destination from the first candidate key
  that is present in the map with a value that coerces (a native number, or a string that
  \<^verbatim>\<open>ParseFloat\<close> accepts once trimmed), applying the declared conversion (identity, times
  1000, times 1e6); it stores through the destination at most once, and leaves it unchanged
  when no candidate key is present with a value that coerces. A candidate that is present
  but does not coerce is passed over, and the next candidate is tried.
\<close>

theorem mapNutrient_first_coercible:
  "mapNutrient field nutriments uc keys =
     (case find (\<lambda>k. case nutriments k of Some v \<Rightarrow> snd (toFloat64 v) = None | None \<Rightarrow> False) keys of
        None \<Rightarrow> field
      | Some k \<Rightarrow> convertUnit uc (fst (toFloat64 (the (nutriments k)))))
   \<and> length (mapNutrientWrites nutriments uc keys) \<le> 1
   \<and> toFloat64 (JNumber v) = (v, None)
   \<and> toFloat64 (JString str) = ParseFloat (TrimSpace str)
   \<and> convertUnit [] f = f
   \<and> convertUnit ''g_to_mg'' f = fmul f (Fin False 1000)
   \<and> convertUnit ''g_to_ug'' f = fmul f (Fin False 1000000)"
proof -
  have "mapNutrient field nutriments uc keys =
     (case find (\<lambda>k. case nutriments k of Some v \<Rightarrow> snd (toFloat64 v) = None | None \<Rightarrow> False) keys of
        None \<Rightarrow> field
      | Some k \<Rightarrow> convertUnit uc (fst (toFloat64 (the (nutriments k)))))"
    unfolding mapNutrient_def mapNutrientWrites_find by (simp split: option.splits)
  with mapNutrientWrites_length [of nutriments uc keys] show ?thesis
    by (simp add: convertUnit_def)
qed

text \<open>
  C4, counterexample. The first candidate key \<open>a\<close> is present in the map, with the JSON value
  \<open>null\<close>; the destination is nevertheless assigned from the later candidate \<open>b\<close>.
\<close>

theorem mapNutrient_later_key_counterexample:
  "[''a'' \<mapsto> JNull, ''b'' \<mapsto> JNumber (Fin False 5)] ''a'' = Some JNull
   \<and> mapNutrient (Fin False 0) [''a'' \<mapsto> JNull, ''b'' \<mapsto> JNumber (Fin False 5)] [] [''a'', ''b'']
       = Fin False 5"
  by (simp add: mapNutrient_def convertUnit_def)

text \<open>
  C9. \<^verbatim>\<open>normalizeAllergen("EN:Milk")\<close> is \<open>milk\<close>; for every raw string whose trimmed,
  uppercased and prefix-stripped form has no entry in \<^verbatim>\<open>AllergenMap\<close> (such as
  \<open>unknown_thing\<close>), \<^verbatim>\<open>normalizeAllergen\<close> returns the lowercased original string and
  \<^verbatim>\<open>extractIngredientAllergen\<close> returns the empty string (as for \<open>en:unknown_thing\<close>).
\<close>

theorem normalizeAllergen_hit_and_miss:
  "normalizeAllergen ''EN:Milk'' = ''milk''
   \<and> (AllergenMap (TrimPrefix (ToUpper (TrimSpace raw)) ''EN:'') = None \<longrightarrow>
        normalizeAllergen raw = ToLower raw \<and> extractIngredientAllergen raw = [])
   \<and> normalizeAllergen ''unknown_thing'' = ''unknown_thing''
   \<and> extractIngredientAllergen ''en:unknown_thing'' = []"
proof -
  have hit: "normalizeAllergen ''EN:Milk'' = ''milk''"
    by code_simp
  have miss: "AllergenMap (TrimPrefix (ToUpper (TrimSpace raw)) ''EN:'') = None \<longrightarrow>
        normalizeAllergen raw = ToLower raw \<and> extractIngredientAllergen raw = []"
    by (simp add: normalizeAllergen_def extractIngredientAllergen_def)
  have ex1: "normalizeAllergen ''unknown_thing'' = ''unknown_thing''"
    by code_simp
  have ex2: "extractIngredientAllergen ''en:unknown_thing'' = []"
    by code_simp
  from hit miss ex1 ex2 show ?thesis by blast
qed

theorem normalizeAllergen_hit_and_miss_witness:
  "AllergenMap (TrimPrefix (ToUpper (TrimSpace '' Unknown_Thing'')) ''EN:'') = None
   \<and> normalizeAllergen '' Unknown_Thing'' = '' unknown_thing''
   \<and> extractIngredientAllergen '' Unknown_Thing'' = []"
proof -
  have h: "AllergenMap (TrimPrefix (ToUpper (TrimSpace '' Unknown_Thing'')) ''EN:'') = None"
    by code_simp
  have l: "ToLower '' Unknown_Thing'' = '' unknown_thing''"
    by code_simp
  from normalizeAllergen_hit_and_miss [of "'' Unknown_Thing''"] h l show ?thesis
    by simp
qed

section \<open>Properties of the serving-size parser\<close>

lemma parse_slices:
  "parseServingSize ''2 SLICES (57 g)'' = (Fin False 2, ''SLICES'', Fin False 57, 3)"
  by code_simp

lemma clean_slices: "cleanServingSize ''2 SLICES (57 g)'' = ''2 SLICES (57 g)''"
  by code_simp

lemma slices_by_pattern2:
  "FindStringSubmatch re1 ''2 SLICES (57 g)'' = None
   \<and> map_option block2 (FindStringSubmatch re2 ''2 SLICES (57 g)'')
       = Some (Fin False 2, ''SLICES'', Fin False 57, 3)"
  by code_simp

lemma title_slices:
  "ToLower ''SLICES'' = ''slices'' \<and> isAsciiOnly ''SLICES'' \<and> toTitle ''SLICES'' = Some ''Slices''"
  by code_simp

lemma natural_slices:
  "\<exists>ss. naturalServing nutriments ''2 SLICES (57 g)'' = Inr [ss]
     \<and> Quantity ss = Fin False 2 \<and> MeasurementUnit ss = ''Slices''
     \<and> WeightInGrams ss = Fin False 57 \<and> Type ss = 3"
  unfolding naturalServing_def
  by (simp add: parse_slices title_slices signed_def Let_def fillServing_def zeroServing_def)

text \<open>
  C6. On the input \<open>2 SLICES (57 g)\<close> the serving-size parser yields quantity 2, weight 57
  grams and unit class Other (serving type 3), with the unit label \<open>Slices\<close>: the second
  pattern matches, \<^verbatim>\<open>parseServingSize\<close> returns the label as written, \<open>SLICES\<close>, and the
  title-casing of lines 464-467, which follows every call of the parser, makes it \<open>Slices\<close>
  in the serving size that is emitted, whatever the nutrient map.
\<close>

theorem parse_2_slices_57_g:
  "parseServingSize ''2 SLICES (57 g)'' = (Fin False 2, ''SLICES'', Fin False 57, 3)
   \<and> cleanServingSize ''2 SLICES (57 g)'' = ''2 SLICES (57 g)''
   \<and> FindStringSubmatch re1 ''2 SLICES (57 g)'' = None
   \<and> map_option block2 (FindStringSubmatch re2 ''2 SLICES (57 g)'')
       = Some (Fin False 2, ''SLICES'', Fin False 57, 3)
   \<and> (\<exists>ss. naturalServing nutriments ''2 SLICES (57 g)'' = Inr [ss]
          \<and> Quantity ss = Fin False 2 \<and> MeasurementUnit ss = ''Slices''
          \<and> WeightInGrams ss = Fin False 57 \<and> Type ss = 3)"
  using parse_slices clean_slices slices_by_pattern2 natural_slices [of nutriments] by blast

lemma parse_200g:
  "parseServingSize ''200g'' = (Fin False 1, ''Serving'', Fin False 200, 3)"
  by code_simp

lemma clean_200g: "cleanServingSize ''200g'' = ''200g''"
  by code_simp

lemma collapse_200g:
  "(case FindStringSubmatch re1 ''200g'' of Some matches \<Rightarrow> block1 ''200g'' matches | None \<Rightarrow> None)
     = Some (Fin False 1, ''Serving'', Fin False 200, 3)
   \<and> map_option (\<lambda>matches. (groups matches 1, groups matches 2)) (FindStringSubmatch re1 ''200g'')
       = Some (''200'', ''g'')
   \<and> ParseFloat ''200'' = (Fin False 200, None)
   \<and> feq (convertToGrams (Fin False 200) ''g'') (Fin False 200)"
  by code_simp

lemma title_serving:
  "ToLower ''Serving'' = ''serving'' \<and> isAsciiOnly ''Serving''
   \<and> toTitle ''Serving'' = Some ''Serving''"
  by code_simp

lemma natural_200g:
  "\<exists>ss. naturalServing nutriments ''200g'' = Inr [ss]
     \<and> Quantity ss = Fin False 1 \<and> MeasurementUnit ss = ''Serving''
     \<and> WeightInGrams ss = Fin False 200 \<and> Type ss = 3"
  unfolding naturalServing_def
  by (simp add: parse_200g title_serving signed_def Let_def fillServing_def zeroServing_def)

text \<open>
  C7. On the input \<open>200g\<close> the parser yields quantity 1, unit label \<open>Serving\<close>, weight 200
  grams and unit class Other (serving type 3). It is the first pattern, a bare number and
  unit, that returns: its groups are \<open>200\<close> and \<open>g\<close>, and the grams computed from them equal
  the number itself. The serving size that is emitted carries the same four values.
\<close>

theorem parse_200g_collapses:
  "parseServingSize ''200g'' = (Fin False 1, ''Serving'', Fin False 200, 3)
   \<and> cleanServingSize ''200g'' = ''200g''
   \<and> (case FindStringSubmatch re1 ''200g'' of
         Some matches \<Rightarrow> block1 ''200g'' matches | None \<Rightarrow> None)
       = Some (Fin False 1, ''Serving'', Fin False 200, 3)
   \<and> map_option (\<lambda>matches. (groups matches 1, groups matches 2)) (FindStringSubmatch re1 ''200g'')
       = Some (''200'', ''g'')
   \<and> ParseFloat ''200'' = (Fin False 200, None)
   \<and> feq (convertToGrams (Fin False 200) ''g'') (Fin False 200)
   \<and> (\<exists>ss. naturalServing nutriments ''200g'' = Inr [ss]
          \<and> Quantity ss = Fin False 1 \<and> MeasurementUnit ss = ''Serving''
          \<and> WeightInGrams ss = Fin False 200 \<and> Type ss = 3)"
  using parse_200g clean_200g collapse_200g natural_200g [of nutriments] by blast

lemma clean_nested: "cleanServingSize ''1 cup (2 tbsp) (30 g)'' = ''1 cup (2 tbsp)''"
  by code_simp

lemma unmatched_cleaned:
  "FindStringSubmatch re1 ''1 cup (2 tbsp)'' = None"
  "FindStringSubmatch re2 ''1 cup (2 tbsp)'' = None"
  "FindStringSubmatch re3 ''1 cup (2 tbsp)'' = None"
  "FindStringSubmatch re4 ''1 cup (2 tbsp)'' = None"
  "FindStringSubmatch re5 ''1 cup (2 tbsp)'' = None"
  "FindStringSubmatch re6 ''1 cup (2 tbsp)'' = None"
  "FindStringSubmatch re7 ''1 cup (2 tbsp)'' = None"
  "FindStringSubmatch re8 ''1 cup (2 tbsp)'' = None"
  "FindStringSubmatch reUnit ''1 cup (2 tbsp)'' = None"
  "FindStringSubmatch reSimple ''1 cup (2 tbsp)'' = None"
  by code_simp+

lemma unmatched_original:
  "FindStringSubmatch re1 ''1 cup (2 tbsp) (30 g)'' = None
   \<and> FindStringSubmatch re2 ''1 cup (2 tbsp) (30 g)'' = None
   \<and> FindStringSubmatch re3 ''1 cup (2 tbsp) (30 g)'' = None
   \<and> FindStringSubmatch re4 ''1 cup (2 tbsp) (30 g)'' = None
   \<and> FindStringSubmatch re5 ''1 cup (2 tbsp) (30 g)'' = None
   \<and> FindStringSubmatch re6 ''1 cup (2 tbsp) (30 g)'' = None
   \<and> FindStringSubmatch re7 ''1 cup (2 tbsp) (30 g)'' = None
   \<and> FindStringSubmatch re8 ''1 cup (2 tbsp) (30 g)'' = None
   \<and> FindStringSubmatch reUnit ''1 cup (2 tbsp) (30 g)'' = None
   \<and> FindStringSubmatch reSimple ''1 cup (2 tbsp) (30 g)'' = None"
  by code_simp

lemma clean_cookies: "cleanServingSize ''(2 cookies)'' = ''(2 cookies)''"
  by code_simp

lemma unmatched_cookies:
  "FindStringSubmatch re1 ''(2 cookies)'' = None"
  "FindStringSubmatch re2 ''(2 cookies)'' = None"
  "FindStringSubmatch re3 ''(2 cookies)'' = None"
  "FindStringSubmatch re4 ''(2 cookies)'' = None"
  "FindStringSubmatch re5 ''(2 cookies)'' = None"
  "FindStringSubmatch re6 ''(2 cookies)'' = None"
  "FindStringSubmatch re7 ''(2 cookies)'' = None"
  "FindStringSubmatch re8 ''(2 cookies)'' = None"
  "FindStringSubmatch reUnit ''(2 cookies)'' = None"
  "FindStringSubmatch reSimple ''(2 cookies)'' = None"
  by code_simp+

lemma parse_empty: "parseServingSize [] = (Fin False 1, [], Fin False 0, 3)"
  by code_simp

text \<open>
  C8, counterexample. None of the ten patterns matches \<open>1 cup (2 tbsp) (30 g)\<close>, neither as
  it is written nor in its cleaned form \<open>1 cup (2 tbsp)\<close> (the second group in brackets is
  cut off); the parser returns quantity 1, weight 0 and serving type 3, and as unit label
  the cleaned string, which is not the original input.
\<close>

theorem unmatched_label_counterexample:
  "cleanServingSize ''1 cup (2 tbsp) (30 g)'' = ''1 cup (2 tbsp)''
   \<and> FindStringSubmatch re1 ''1 cup (2 tbsp)'' = None
   \<and> FindStringSubmatch re2 ''1 cup (2 tbsp)'' = None
   \<and> FindStringSubmatch re3 ''1 cup (2 tbsp)'' = None
   \<and> FindStringSubmatch re4 ''1 cup (2 tbsp)'' = None
   \<and> FindStringSubmatch re5 ''1 cup (2 tbsp)'' = None
   \<and> FindStringSubmatch re6 ''1 cup (2 tbsp)'' = None
   \<and> FindStringSubmatch re7 ''1 cup (2 tbsp)'' = None
   \<and> FindStringSubmatch re8 ''1 cup (2 tbsp)'' = None
   \<and> FindStringSubmatch reUnit ''1 cup (2 tbsp)'' = None
   \<and> FindStringSubmatch reSimple ''1 cup (2 tbsp)'' = None
   \<and> FindStringSubmatch re1 ''1 cup (2 tbsp) (30 g)'' = None
   \<and> FindStringSubmatch re2 ''1 cup (2 tbsp) (30 g)'' = None
   \<and> FindStringSubmatch re3 ''1 cup (2 tbsp) (30 g)'' = None
   \<and> FindStringSubmatch re4 ''1 cup (2 tbsp) (30 g)'' = None
   \<and> FindStringSubmatch re5 ''1 cup (2 tbsp) (30 g)'' = None
   \<and> FindStringSubmatch re6 ''1 cup (2 tbsp) (30 g)'' = None
   \<and> FindStringSubmatch re7 ''1 cup (2 tbsp) (30 g)'' = None
   \<and> FindStringSubmatch re8 ''1 cup (2 tbsp) (30 g)'' = None
   \<and> FindStringSubmatch reUnit ''1 cup (2 tbsp) (30 g)'' = None
   \<and> FindStringSubmatch reSimple ''1 cup (2 tbsp) (30 g)'' = None
   \<and> parseServingSize ''1 cup (2 tbsp) (30 g)''
       = (Fin False 1, ''1 cup (2 tbsp)'', Fin False 0, 3)
   \<and> fst (snd (parseServingSize ''1 cup (2 tbsp) (30 g)'')) \<noteq> ''1 cup (2 tbsp) (30 g)''"
proof -
  have p: "parseServingSize ''1 cup (2 tbsp) (30 g)''
       = (Fin False 1, ''1 cup (2 tbsp)'', Fin False 0, 3)"
    unfolding parseServingSize_def by (simp add: clean_nested unmatched_cleaned)
  then have "fst (snd (parseServingSize ''1 cup (2 tbsp) (30 g)'')) \<noteq> ''1 cup (2 tbsp) (30 g)''"
    by simp
  with p clean_nested unmatched_cleaned unmatched_original show ?thesis by blast
qed

text \<open>
  C8 (as amended). On the empty input, and on every input whose cleaned form none of the ten
  patterns matches, the parser returns quantity 1, weight 0 grams, unit class Other (serving
  type 3), and the cleaned input string as the unit label.
\<close>

theorem unmatched_gives_cleaned_string:
  "parseServingSize [] = (Fin False 1, [], Fin False 0, 3)
   \<and> (FindStringSubmatch re1 (cleanServingSize s) = None
        \<and> FindStringSubmatch re2 (cleanServingSize s) = None
        \<and> FindStringSubmatch re3 (cleanServingSize s) = None
        \<and> FindStringSubmatch re4 (cleanServingSize s) = None
        \<and> FindStringSubmatch re5 (cleanServingSize s) = None
        \<and> FindStringSubmatch re6 (cleanServingSize s) = None
        \<and> FindStringSubmatch re7 (cleanServingSize s) = None
        \<and> FindStringSubmatch re8 (cleanServingSize s) = None
        \<and> FindStringSubmatch reUnit (cleanServingSize s) = None
        \<and> FindStringSubmatch reSimple (cleanServingSize s) = None
       \<longrightarrow> parseServingSize s = (Fin False 1, cleanServingSize s, Fin False 0, 3))"
  by (simp add: parse_empty) (simp add: parseServingSize_def)

theorem unmatched_gives_cleaned_string_witness:
  "FindStringSubmatch re1 (cleanServingSize ''(2 cookies)'') = None
   \<and> FindStringSubmatch re2 (cleanServingSize ''(2 cookies)'') = None
   \<and> FindStringSubmatch re3 (cleanServingSize ''(2 cookies)'') = None
   \<and> FindStringSubmatch re4 (cleanServingSize ''(2 cookies)'') = None
   \<and> FindStringSubmatch re5 (cleanServingSize ''(2 cookies)'') = None
   \<and> FindStringSubmatch re6 (cleanServingSize ''(2 cookies)'') = None
   \<and> FindStringSubmatch re7 (cleanServingSize ''(2 cookies)'') = None
   \<and> FindStringSubmatch re8 (cleanServingSize ''(2 cookies)'') = None
   \<and> FindStringSubmatch reUnit (cleanServingSize ''(2 cookies)'') = None
   \<and> FindStringSubmatch reSimple (cleanServingSize ''(2 cookies)'') = None
   \<and> parseServingSize ''(2 cookies)'' = (Fin False 1, ''(2 cookies)'', Fin False 0, 3)"
  using unmatched_gives_cleaned_string [of "''(2 cookies)''"]
  by (simp add: clean_cookies unmatched_cookies)

section \<open>Properties of the record normalizer\<close>

lemma EmptyKeyFields_not_EmptyNameAndBarcode: "EmptyKeyFields \<noteq> EmptyNameAndBarcode"
  by (simp add: EmptyKeyFields_def EmptyNameAndBarcode_def)

text \<open>
  C2. A record whose identifier is empty or whose code is empty is rejected with the reason
  \<open>EmptyKeyFields\<close>, whatever its other fields hold; the heap is left as it was.
\<close>

theorem ProcessProduct_rejects_empty_key:
  "ID product = [] \<or> Code product = [] \<Longrightarrow>
   ProcessProduct product h pick = (Inl EmptyKeyFields, h)"
  by (simp add: ProcessProduct_def)

theorem ProcessProduct_rejects_empty_key_witness:
  "(ID (emptyProduct\<lparr>Code := ''3017620422003'', ProductName := ''Nutella''\<rparr>) = []
    \<or> Code (emptyProduct\<lparr>Code := ''3017620422003'', ProductName := ''Nutella''\<rparr>) = [])
   \<and> ProcessProduct (emptyProduct\<lparr>Code := ''3017620422003'', ProductName := ''Nutella''\<rparr>) [] 0
       = (Inl EmptyKeyFields, [])"
proof -
  have h: "ID (emptyProduct\<lparr>Code := ''3017620422003'', ProductName := ''Nutella''\<rparr>) = []
    \<or> Code (emptyProduct\<lparr>Code := ''3017620422003'', ProductName := ''Nutella''\<rparr>) = []"
    by (simp add: emptyProduct_def)
  from h ProcessProduct_rejects_empty_key [OF h, of "[]" 0] show ?thesis by blast
qed

text \<open>
  C3, counterexample. The record with identifier \<open>1\<close> and nothing else has no name of any
  kind and an empty barcode (the barcode is the code); it is rejected with the reason
  \<open>EmptyKeyFields\<close>, not with \<open>EmptyNameAndBarcode\<close>.
\<close>

theorem no_name_no_barcode_counterexample:
  "fst (chooseName (emptyProduct\<lparr>ID := ''1''\<rparr>) 0) = []
   \<and> Code (emptyProduct\<lparr>ID := ''1''\<rparr>) = []
   \<and> fst (ProcessProduct (emptyProduct\<lparr>ID := ''1''\<rparr>) [] 0) = Inl EmptyKeyFields
   \<and> fst (ProcessProduct (emptyProduct\<lparr>ID := ''1''\<rparr>) [] 0) \<noteq> Inl EmptyNameAndBarcode"
proof -
  have n: "fst (chooseName (emptyProduct\<lparr>ID := ''1''\<rparr>) 0) = []"
    by code_simp
  have c: "Code (emptyProduct\<lparr>ID := ''1''\<rparr>) = []"
    by (simp add: emptyProduct_def)
  have p: "fst (ProcessProduct (emptyProduct\<lparr>ID := ''1''\<rparr>) [] 0) = Inl EmptyKeyFields"
    by (simp add: ProcessProduct_def c)
  from n c p EmptyKeyFields_not_EmptyNameAndBarcode show ?thesis by simp
qed

text \<open>
  C3 (as amended). A record in which no display name resolves and whose barcode is empty is
  rejected with the reason \<open>EmptyKeyFields\<close>, and not with \<open>EmptyNameAndBarcode\<close>: the
  barcode is the code, and the record with an empty code is rejected by the first check.
\<close>

theorem no_name_no_barcode_is_EmptyKeyFields:
  "fst (chooseName product pick) = [] \<Longrightarrow> Code product = [] \<Longrightarrow>
   fst (ProcessProduct product h pick) = Inl EmptyKeyFields
   \<and> fst (ProcessProduct product h pick) \<noteq> Inl EmptyNameAndBarcode"
  by (simp add: ProcessProduct_def EmptyKeyFields_not_EmptyNameAndBarcode)

theorem no_name_no_barcode_is_EmptyKeyFields_witness:
  "fst (chooseName (emptyProduct\<lparr>ID := ''42'', Lang := ''fr''\<rparr>) 0) = []
   \<and> Code (emptyProduct\<lparr>ID := ''42'', Lang := ''fr''\<rparr>) = []
   \<and> fst (ProcessProduct (emptyProduct\<lparr>ID := ''42'', Lang := ''fr''\<rparr>) [] 0) = Inl EmptyKeyFields
   \<and> fst (ProcessProduct (emptyProduct\<lparr>ID := ''42'', Lang := ''fr''\<rparr>) [] 0)
       \<noteq> Inl EmptyNameAndBarcode"
proof -
  have n: "fst (chooseName (emptyProduct\<lparr>ID := ''42'', Lang := ''fr''\<rparr>) 0) = []"
    by code_simp
  have c: "Code (emptyProduct\<lparr>ID := ''42'', Lang := ''fr''\<rparr>) = []"
    by (simp add: emptyProduct_def)
  from n c no_name_no_barcode_is_EmptyKeyFields [OF n c, of "[]"] show ?thesis by blast
qed

text \<open>No input at all is rejected with the reason \<open>EmptyNameAndBarcode\<close>.\<close>

lemma EmptyNameAndBarcode_unreachable:
  "fst (ProcessProduct product h pick) \<noteq> Inl EmptyNameAndBarcode"
  unfolding ProcessProduct_def naturalServing_def
  by (auto simp: Let_def EmptyKeyFields_def EmptyNameAndBarcode_def
           split: if_splits prod.splits sum.splits option.splits)

lemma per100g_reference:
  "MeasurementUnit (per100g n) = ''g'' \<and> Quantity (per100g n) = Fin False 100
   \<and> WeightInGrams (per100g n) = Fin False 100"
  by (simp add: per100g_def fill100g_def zeroServing_def Let_def)

lemma per100g_backfill:
  "feq (mapNutrient (Fin False 0) n [] [''energy-kcal_100g'']) (Fin False 0) \<Longrightarrow>
   Calories (per100g n) =
     fadd (fadd (fmul (Protein (per100g n)) (Fin False 4)) (fmul (Fat (per100g n)) (Fin False 9)))
          (fmul (Carbs (per100g n)) (Fin False 4))"
  by (simp add: per100g_def fill100g_def zeroServing_def Let_def)

lemma naturalServing_shape:
  "naturalServing n s = Inr ss \<Longrightarrow>
   ss = [] \<or> (\<exists>x. ss = [x] \<and> \<not> feq (WeightInGrams x) (Fin False 100)
      \<and> (feq (mapNutrient (Fin False 0) n [] [''energy-kcal_serving'']) (Fin False 0) \<longrightarrow>
           Calories x = fadd (fadd (fmul (Protein x) (Fin False 4)) (fmul (Fat x) (Fin False 9)))
                             (fmul (Carbs x) (Fin False 4))))"
  unfolding naturalServing_def
  by (auto simp: Let_def fillServing_def zeroServing_def split: if_splits prod.splits option.splits)

lemma ProcessProduct_accepted:
  "fst (ProcessProduct product h pick) = Inr item \<Longrightarrow>
   \<exists>natural. naturalServing (Nutriments product) (ServingSizeText product) = Inr natural
     \<and> ServingSizes item = natural @ [per100g (Nutriments product)]"
  unfolding ProcessProduct_def
  by (auto simp: Let_def split: if_splits prod.splits sum.splits)

lemma slicesProduct_accepted:
  "fst (ProcessProduct slicesProduct [] 0) = Inr (projr (fst (ProcessProduct slicesProduct [] 0)))"
proof -
  have "\<not> isl (fst (ProcessProduct slicesProduct [] 0))"
    by code_simp
  then show ?thesis
    by (cases "fst (ProcessProduct slicesProduct [] 0)") simp_all
qed

lemma slicesProduct_two_servings:
  "length (ServingSizes (projr (fst (ProcessProduct slicesProduct [] 0)))) = 2"
  by code_simp

text \<open>
  C1. The serving sizes of every accepted record are the natural serving size, when it is
  kept, followed by the serving per 100 g: at most one element, then the entry with quantity
  100, unit \<open>g\<close> and weight 100 grams. That entry is the last element, and it is the only
  element with these three values.
\<close>

theorem per100g_exactly_once_and_last:
  assumes "fst (ProcessProduct product h pick) = Inr item"
  shows "(\<exists>natural. naturalServing (Nutriments product) (ServingSizeText product) = Inr natural
            \<and> length natural \<le> 1
            \<and> ServingSizes item = natural @ [per100g (Nutriments product)])
     \<and> length (filter (\<lambda>s. feq (Quantity s) (Fin False 100) \<and> MeasurementUnit s = ''g''
                            \<and> feq (WeightInGrams s) (Fin False 100)) (ServingSizes item)) = 1
     \<and> feq (Quantity (last (ServingSizes item))) (Fin False 100)
     \<and> MeasurementUnit (last (ServingSizes item)) = ''g''
     \<and> feq (WeightInGrams (last (ServingSizes item))) (Fin False 100)"
proof -
  from assms obtain natural where
    n: "naturalServing (Nutriments product) (ServingSizeText product) = Inr natural" and
    s: "ServingSizes item = natural @ [per100g (Nutriments product)]"
    using ProcessProduct_accepted by blast
  from naturalServing_shape [OF n] have
    shape: "natural = [] \<or> (\<exists>x. natural = [x] \<and> \<not> feq (WeightInGrams x) (Fin False 100))"
    by blast
  then have len: "length natural \<le> 1" by auto
  have ref: "feq (Quantity (per100g (Nutriments product))) (Fin False 100)
      \<and> MeasurementUnit (per100g (Nutriments product)) = ''g''
      \<and> feq (WeightInGrams (per100g (Nutriments product))) (Fin False 100)"
    by (simp add: per100g_reference)
  from shape ref have once:
    "length (filter (\<lambda>s. feq (Quantity s) (Fin False 100) \<and> MeasurementUnit s = ''g''
                            \<and> feq (WeightInGrams s) (Fin False 100))
               (natural @ [per100g (Nutriments product)])) = 1"
    by auto
  from n s len once ref show ?thesis by simp
qed

theorem per100g_exactly_once_and_last_witness:
  "fst (ProcessProduct slicesProduct [] 0) = Inr (projr (fst (ProcessProduct slicesProduct [] 0)))
   \<and> length (ServingSizes (projr (fst (ProcessProduct slicesProduct [] 0)))) = 2
   \<and> length (filter (\<lambda>s. feq (Quantity s) (Fin False 100) \<and> MeasurementUnit s = ''g''
                            \<and> feq (WeightInGrams s) (Fin False 100))
        (ServingSizes (projr (fst (ProcessProduct slicesProduct [] 0))))) = 1
   \<and> MeasurementUnit (last (ServingSizes (projr (fst (ProcessProduct slicesProduct [] 0)))))
       = ''g''"
  using slicesProduct_accepted slicesProduct_two_servings
    per100g_exactly_once_and_last [OF slicesProduct_accepted]
  by blast

text \<open>
  C5. An accepted record emits one or two serving sizes, the serving per 100 g last and the
  natural serving, when there is one, first. In each of them, when the calorie value
  extracted from the nutrient map equals 0, the final calorie value is
  \<open>protein * 4 + fat * 9 + carbs * 4\<close>, in float64 arithmetic, by the same rule for both.
\<close>

theorem calorie_backfill:
  assumes "fst (ProcessProduct product h pick) = Inr item"
  shows "(length (ServingSizes item) = 1 \<or> length (ServingSizes item) = 2)
     \<and> (feq (mapNutrient (Fin False 0) (Nutriments product) [] [''energy-kcal_100g'']) (Fin False 0)
          \<longrightarrow> Calories (last (ServingSizes item)) =
                fadd (fadd (fmul (Protein (last (ServingSizes item))) (Fin False 4))
                           (fmul (Fat (last (ServingSizes item))) (Fin False 9)))
                     (fmul (Carbs (last (ServingSizes item))) (Fin False 4)))
     \<and> (length (ServingSizes item) = 2
          \<and> feq (mapNutrient (Fin False 0) (Nutriments product) [] [''energy-kcal_serving''])
                 (Fin False 0)
          \<longrightarrow> Calories (hd (ServingSizes item)) =
                fadd (fadd (fmul (Protein (hd (ServingSizes item))) (Fin False 4))
                           (fmul (Fat (hd (ServingSizes item))) (Fin False 9)))
                     (fmul (Carbs (hd (ServingSizes item))) (Fin False 4)))"
proof -
  from assms obtain natural where
    n: "naturalServing (Nutriments product) (ServingSizeText product) = Inr natural" and
    s: "ServingSizes item = natural @ [per100g (Nutriments product)]"
    using ProcessProduct_accepted by blast
  have l: "last (ServingSizes item) = per100g (Nutriments product)"
    using s by simp
  from naturalServing_shape [OF n] s l per100g_backfill [of "Nutriments product"]
  show ?thesis by auto
qed

lemma slicesProduct_no_calories:
  "feq (mapNutrient (Fin False 0) (Nutriments slicesProduct) [] [''energy-kcal_100g''])
       (Fin False 0)
   \<and> feq (mapNutrient (Fin False 0) (Nutriments slicesProduct) [] [''energy-kcal_serving''])
         (Fin False 0)"
  by code_simp

lemma slicesProduct_calories:
  "map Calories (ServingSizes (projr (fst (ProcessProduct slicesProduct [] 0))))
     = [Fin False (27 / 2), Fin False 40]"
  by code_simp

theorem calorie_backfill_witness:
  "fst (ProcessProduct slicesProduct [] 0) = Inr (projr (fst (ProcessProduct slicesProduct [] 0)))
   \<and> feq (mapNutrient (Fin False 0) (Nutriments slicesProduct) [] [''energy-kcal_100g''])
          (Fin False 0)
   \<and> length (ServingSizes (projr (fst (ProcessProduct slicesProduct [] 0)))) = 2
   \<and> feq (mapNutrient (Fin False 0) (Nutriments slicesProduct) [] [''energy-kcal_serving''])
          (Fin False 0)
   \<and> map Calories (ServingSizes (projr (fst (ProcessProduct slicesProduct [] 0))))
       = [Fin False (27 / 2), Fin False 40]
   \<and> Calories (last (ServingSizes (projr (fst (ProcessProduct slicesProduct [] 0))))) =
        fadd (fadd (fmul (Protein (last (ServingSizes (projr (fst (ProcessProduct slicesProduct [] 0))))))
                         (Fin False 4))
                   (fmul (Fat (last (ServingSizes (projr (fst (ProcessProduct slicesProduct [] 0))))))
                         (Fin False 9)))
             (fmul (Carbs (last (ServingSizes (projr (fst (ProcessProduct slicesProduct [] 0))))))
                   (Fin False 4))
   \<and> Calories (hd (ServingSizes (projr (fst (ProcessProduct slicesProduct [] 0))))) =
        fadd (fadd (fmul (Protein (hd (ServingSizes (projr (fst (ProcessProduct slicesProduct [] 0))))))
                         (Fin False 4))
                   (fmul (Fat (hd (ServingSizes (projr (fst (ProcessProduct slicesProduct [] 0))))))
                         (Fin False 9)))
             (fmul (Carbs (hd (ServingSizes (projr (fst (ProcessProduct slicesProduct [] 0))))))
                   (Fin False 4))"
  using slicesProduct_no_calories slicesProduct_two_servings slicesProduct_calories
    slicesProduct_accepted calorie_backfill [OF slicesProduct_accepted]
  by blast

text \<open>
  C10, at a failing input. The record is accepted; the array behind its allergens tag list
  holds \<open>en:milk\<close> and \<open>Gluten\<close> before the call and \<open>milk\<close> and \<open>gluten\<close> after it: the loop of
  lines 388-390 stores the normalized strings through the caller's own slice.
\<close>

theorem allergens_tags_overwritten:
  "elems taggedHeap (AllergensTags taggedProduct) = [''en:milk'', ''Gluten'']
   \<and> \<not> isl (fst (ProcessProduct taggedProduct taggedHeap 0))
   \<and> elems (snd (ProcessProduct taggedProduct taggedHeap 0)) (AllergensTags taggedProduct)
       = [''milk'', ''gluten'']"
  by code_simp

end
